theory Spec2Isabelle
  imports Complex_Main
begin

section \<open>Radial and azimuthal profiles of a 2D image (pyimq/external/radial\_profile.py)\<close>

text \<open>
  The embedding follows the Python source statement by statement. Conventions:
  \<^item> a 2D array is its shape together with its row-major flattening (\<open>.flat\<close>, \<open>ravel()\<close>);
  \<^item> finite floating-point samples are real numbers and arithmetic on them is exact; the
    non-finite results of a division by zero (\<open>nan\<close>, \<open>inf\<close>, \<open>-inf\<close>) are values of
    the type \<open>fval\<close>;
  \<^item> every exception of the source is an \<open>error\<close>, returned as \<open>Inl\<close>;
  \<^item> \<open>weights\<close> and \<open>mask\<close> are given flattened; the docstrings ask for the size of the
    image, and any other size is answered with \<open>ShapeMismatch\<close> where the source first
    combines the arrays (NumPy's broadcasting of other shapes is outside the embedding);
  \<^item> the bin size is a positive number; \<open>binsize = 0\<close> makes \<open>int()\<close> raise, and negative
    sizes are outside the embedding: both are answered with \<open>BadBinsize\<close>;
  \<^item> a Python number is an \<open>int\<close> or a \<open>float\<close> (\<open>pynum\<close>) where the source hands it to a
    function that insists on an integer.
\<close>

subsection \<open>Values and errors\<close>

datatype fval = Fin real | PInf | NInf | NaN

datatype error =
    EmptyReduction          \<comment> \<open>ValueError: max/min of a zero-size array\<close>
  | WeightedStddev          \<comment> \<open>ValueError("Weighted standard deviation is not defined.")\<close>
  | BadBinsize              \<comment> \<open>binsize not positive\<close>
  | ShapeMismatch           \<comment> \<open>weights or mask not of the size of the image\<close>
  | InterpError             \<comment> \<open>ValueError raised by np.interp\<close>
  | BadBins                 \<comment> \<open>ValueError("... must be an ndarray or an integer"), linspace with negative num\<close>
  | UnpackError             \<comment> \<open>unpacking a result that is not a pair\<close>
  | UnboundLocal            \<comment> \<open>UnboundLocalError: no band or sector was processed\<close>
  | DuplicateKeyword        \<comment> \<open>TypeError: a keyword given both explicitly and in kwargs\<close>
  | TypeError               \<comment> \<open>TypeError: a float where an integer count is required\<close>

record image =
  nrows :: nat
  ncols :: nat
  flat :: "real list"

definition wf_image :: "image \<Rightarrow> bool" where
  "wf_image im \<longleftrightarrow> length (flat im) = nrows im * ncols im"

text \<open>The keyword arguments (lines 35-46 and 195-205). A flag is \<open>False\<close> when its key is
  absent; \<open>center\<close>, \<open>weights\<close>, \<open>mask\<close>, \<open>left\<close> and \<open>right\<close> are \<open>None\<close> when absent, and
  so is \<open>binsize\<close>, whose default depends on the function.\<close>

record kwargs =
  center :: "(real \<times> real) option"
  stddev :: bool
  returnradii :: bool
  return_nr :: bool
  return_az :: bool
  return_naz :: bool
  binsize :: "real option"
  weights :: "real list option"
  steps :: bool
  interpnan :: bool
  left :: "fval option"
  right :: "fval option"
  mask :: "bool list option"
  sum_bin :: bool

definition no_kwargs :: kwargs where
  "no_kwargs = \<lparr> center = None, stddev = False, returnradii = False, return_nr = False,
     return_az = False, return_naz = False, binsize = None, weights = None, steps = False,
     interpnan = False, left = None, right = None, mask = None, sum_bin = False \<rparr>"

datatype result =
    Profile "fval list"
  | WithCenters "real list" "fval list"
  | WithCounts "nat list" "real list" "fval list"
  | StepArrays "real list" "fval list"

subsection \<open>IEEE arithmetic on \<open>fval\<close> (rounding abstracted)\<close>

definition fdiv_real :: "real \<Rightarrow> real \<Rightarrow> fval" where
  "fdiv_real a b =
     (if b \<noteq> 0 then Fin (a / b)
      else if a = 0 then NaN else if 0 < a then PInf else NInf)"

fun fadd :: "fval \<Rightarrow> fval \<Rightarrow> fval" where
  "fadd NaN _ = NaN"
| "fadd _ NaN = NaN"
| "fadd (Fin a) (Fin b) = Fin (a + b)"
| "fadd PInf NInf = NaN"
| "fadd NInf PInf = NaN"
| "fadd PInf _ = PInf"
| "fadd _ PInf = PInf"
| "fadd NInf _ = NInf"
| "fadd _ NInf = NInf"

fun fneg :: "fval \<Rightarrow> fval" where
  "fneg (Fin a) = Fin (- a)"
| "fneg PInf = NInf"
| "fneg NInf = PInf"
| "fneg NaN = NaN"

definition fsub :: "fval \<Rightarrow> fval \<Rightarrow> fval" where
  "fsub a b = fadd a (fneg b)"

fun fscale :: "fval \<Rightarrow> real \<Rightarrow> fval" where
  "fscale (Fin a) c = Fin (a * c)"
| "fscale NaN c = NaN"
| "fscale PInf c = (if c = 0 then NaN else if 0 < c then PInf else NInf)"
| "fscale NInf c = (if c = 0 then NaN else if 0 < c then NInf else PInf)"

fun fdiv_by :: "fval \<Rightarrow> real \<Rightarrow> fval" where
  "fdiv_by (Fin a) c = fdiv_real a c"
| "fdiv_by NaN c = NaN"
| "fdiv_by PInf c = (if 0 \<le> c then PInf else NInf)"
| "fdiv_by NInf c = (if 0 \<le> c then NInf else PInf)"

definition feq :: "fval \<Rightarrow> fval \<Rightarrow> bool" where
  "feq a b \<longleftrightarrow> a \<noteq> NaN \<and> a = b"

definition isnan :: "fval \<Rightarrow> bool" where
  "isnan a \<longleftrightarrow> a = NaN"

subsection \<open>The NumPy functions the module calls\<close>

text \<open>\<open>np.indices(image.shape)\<close>, flattened: the column index \<open>x\<close> and the row index \<open>y\<close>
  of every pixel.\<close>

definition indices_x :: "image \<Rightarrow> real list" where
  "indices_x im = map (\<lambda>i. real (i mod ncols im)) [0..<nrows im * ncols im]"

definition indices_y :: "image \<Rightarrow> real list" where
  "indices_y im = map (\<lambda>i. real (i div ncols im)) [0..<nrows im * ncols im]"

definition amax :: "real list \<Rightarrow> real" where
  "amax xs = Max (set xs)"

definition amin :: "real list \<Rightarrow> real" where
  "amin xs = Min (set xs)"

definition hypot :: "real \<Rightarrow> real \<Rightarrow> real" where
  "hypot a b = sqrt (a\<^sup>2 + b\<^sup>2)"

text \<open>\<open>np.round\<close>: to the nearest integer, ties to the even one.\<close>

definition np_round :: "real \<Rightarrow> int" where
  "np_round v =
     (let f = \<lfloor>v\<rfloor>; d = v - of_int f
      in if d < 1/2 then f else if 1/2 < d then f + 1 else if even f then f else f + 1)"

text \<open>\<open>int(v)\<close> on a float: truncation towards zero.\<close>

definition py_int :: "real \<Rightarrow> int" where
  "py_int v = (if 0 \<le> v then \<lfloor>v\<rfloor> else \<lceil>v\<rceil>)"

text \<open>\<open>np.linspace(start, stop, num)\<close> for \<open>num \<ge> 0\<close>.\<close>

definition linspace :: "real \<Rightarrow> real \<Rightarrow> nat \<Rightarrow> real list" where
  "linspace start stop num =
     (if num = 1 then [start]
      else map (\<lambda>i. start + real i * ((stop - start) / real (num - 1))) [0..<num])"

text \<open>\<open>np.digitize(v, bins)\<close> for increasing \<open>bins\<close>: the index \<open>i\<close> with
  \<open>bins[i-1] \<le> v < bins[i]\<close>, that is the number of edges not above \<open>v\<close>.\<close>

definition digitize :: "real \<Rightarrow> real list \<Rightarrow> nat" where
  "digitize v bins = length (filter (\<lambda>e. e \<le> v) bins)"

text \<open>\<open>np.bincount(ws)\<close> of a non-empty array: one count for each value from 0 to the
  largest.\<close>

definition bincount :: "nat list \<Rightarrow> nat list" where
  "bincount ws = map (\<lambda>v. count_list ws v) [0..<Suc (Max (set ws))]"

text \<open>\<open>a.flat[mask * (whichbin == b)]\<close>: boolean selection.\<close>

definition select_bin :: "'a list \<Rightarrow> bool list \<Rightarrow> nat list \<Rightarrow> nat \<Rightarrow> 'a list" where
  "select_bin a msk whichbin b =
     map fst (filter (\<lambda>(v, m, w). m \<and> w = b) (zip a (zip msk whichbin)))"

text \<open>\<open>a.std()\<close>: the population standard deviation, \<open>nan\<close> on an empty selection.\<close>

definition np_std :: "real list \<Rightarrow> fval" where
  "np_std xs =
     (if xs = [] then NaN
      else let n = real (length xs); mu = sum_list xs / n
           in Fin (sqrt (sum_list (map (\<lambda>v. (v - mu)\<^sup>2) xs) / n)))"

text \<open>\<open>np.interp(x, xp, fp, left, right)\<close> for increasing \<open>xp\<close> (NumPy's
  \<open>arr_interp\<close>): the value at a sample point is taken from \<open>fp\<close> as it is, between
  two sample points the line through them is evaluated, and a \<open>nan\<close> there is retried
  from the right end.\<close>

definition interp1 :: "real list \<Rightarrow> fval list \<Rightarrow> fval option \<Rightarrow> fval option \<Rightarrow> real \<Rightarrow> fval" where
  "interp1 xp fp lft rgt v =
     (let j = length (filter (\<lambda>e. e \<le> v) xp)
      in if j = 0 then (case lft of None \<Rightarrow> hd fp | Some l \<Rightarrow> l)
         else if j = length xp \<and> last xp < v then (case rgt of None \<Rightarrow> last fp | Some r \<Rightarrow> r)
         else if j = length xp then fp ! (j - 1)
         else if xp ! (j - 1) = v then fp ! (j - 1)
         else
           let slope = fdiv_by (fsub (fp ! j) (fp ! (j - 1))) (xp ! j - xp ! (j - 1));
               r1 = fadd (fscale slope (v - xp ! (j - 1))) (fp ! (j - 1));
               r2 = fadd (fscale slope (v - xp ! j)) (fp ! j)
           in if \<not> isnan r1 then r1
              else if isnan r2 \<and> feq (fp ! (j - 1)) (fp ! j) then fp ! (j - 1)
              else r2)"

definition interp :: "real list \<Rightarrow> real list \<Rightarrow> fval list \<Rightarrow> fval option \<Rightarrow> fval option
    \<Rightarrow> error + fval list" where
  "interp x xp fp lft rgt =
     (if xp = [] then Inl InterpError
      else if length fp \<noteq> length xp then Inl InterpError
      else Inr (map (interp1 xp fp lft rgt) x))"

text \<open>\<open>np.array(list(zip(a, b))).ravel()\<close>.\<close>

fun zip_ravel :: "'a list \<Rightarrow> 'a list \<Rightarrow> 'a list" where
  "zip_ravel (a # as) (b # bs) = a # b # zip_ravel as bs"
| "zip_ravel _ _ = []"

text \<open>Python's \<open>a % m\<close> on floats, \<open>m > 0\<close>: the remainder has the sign of \<open>m\<close>.\<close>

definition py_mod :: "real \<Rightarrow> real \<Rightarrow> real" where
  "py_mod a m = a - m * of_int \<lfloor>a / m\<rfloor>"

text \<open>\<open>np.arctan2(a, b)\<close>: the angle of the point with abscissa \<open>b\<close> and ordinate \<open>a\<close>,
  in \<open>(-\<pi>, \<pi>]\<close>.\<close>

definition arctan2 :: "real \<Rightarrow> real \<Rightarrow> real" where
  "arctan2 a b =
     (if 0 < b then arctan (a / b)
      else if b < 0 then (if 0 \<le> a then arctan (a / b) + pi else arctan (a / b) - pi)
      else if 0 < a then pi / 2 else if a < 0 then - pi / 2 else 0)"

subsection \<open>The quantities shared by the four functions\<close>

text \<open>Lines 51-52: the default centre.\<close>

definition default_center :: "image \<Rightarrow> real \<times> real" where
  "default_center im =
     ((amax (indices_x im) - amin (indices_x im)) / 2,
      (amax (indices_y im) - amin (indices_y im)) / 2)"

definition the_center :: "image \<Rightarrow> (real \<times> real) option \<Rightarrow> real \<times> real" where
  "the_center im c = (case c of None \<Rightarrow> default_center im | Some p \<Rightarrow> p)"

text \<open>Line 56: \<open>r = np.hypot(x - center[0], y - center[1])\<close>, flattened.\<close>

definition distance_map :: "image \<Rightarrow> real \<times> real \<Rightarrow> real list" where
  "distance_map im c =
     map2 (\<lambda>x y. hypot (x - fst c) (y - snd c)) (indices_x im) (indices_y im)"

text \<open>Lines 136-138: \<open>theta_deg\<close>, flattened.\<close>

definition wrap_deg :: "real \<Rightarrow> real" where
  "wrap_deg t = (if t < 0 then t + 2 * pi else t) * 180 / pi"

definition angle_map :: "image \<Rightarrow> real \<times> real \<Rightarrow> real list" where
  "angle_map im c =
     map2 (\<lambda>x y. wrap_deg (arctan2 (x - fst c) (y - snd c))) (indices_x im) (indices_y im)"

text \<open>Lines 71-75: the number of bins, the bin edges and the bin centres for the map
  \<open>vals\<close> (distances or angles). \<open>np.round\<close> returns an integral float, which line 71
  converts with \<open>int()\<close>.\<close>

definition nbins_of :: "real list \<Rightarrow> real \<Rightarrow> int" where
  "nbins_of vals bsz = np_round (amax vals / bsz) + 1"

definition bin_edges :: "real list \<Rightarrow> real \<Rightarrow> real list" where
  "bin_edges vals bsz =
     linspace 0 (of_int (nbins_of vals bsz) * bsz) (nat (nbins_of vals bsz + 1))"

definition centers_of :: "real list \<Rightarrow> real list" where
  "centers_of bins = map2 (\<lambda>a b. (a + b) / 2) (tl bins) (butlast bins)"

text \<open>Lines 78-82: \<open>whichbin\<close> and the histogram \<open>nr\<close>.\<close>

definition whichbin_of :: "real list \<Rightarrow> real \<Rightarrow> nat list" where
  "whichbin_of vals bsz = map (\<lambda>v. digitize v (bin_edges vals bsz)) vals"

definition counts_of :: "real list \<Rightarrow> real \<Rightarrow> nat list" where
  "counts_of vals bsz = tl (bincount (whichbin_of vals bsz))"

text \<open>Lines 86-87: the number of bins kept.\<close>

definition sampling_freq :: "image \<Rightarrow> real" where
  "sampling_freq im = (amax (indices_x im) - amin (indices_x im)) / 2"

definition nbins_true :: "image \<Rightarrow> real \<Rightarrow> int" where
  "nbins_true im bsz = py_int (sampling_freq im / bsz)"

text \<open>The three aggregates of one bin \<open>b\<close> (lines 91, 96, 103-104).\<close>

definition bin_std :: "real list \<Rightarrow> bool list \<Rightarrow> nat list \<Rightarrow> nat \<Rightarrow> fval" where
  "bin_std a msk wb b = np_std (select_bin a msk wb b)"

definition bin_sum :: "real list \<Rightarrow> real list \<Rightarrow> bool list \<Rightarrow> nat list \<Rightarrow> nat \<Rightarrow> fval" where
  "bin_sum a w msk wb b = Fin (sum_list (select_bin (map2 (*) a w) msk wb b))"

definition bin_mean :: "real list \<Rightarrow> real list \<Rightarrow> bool list \<Rightarrow> nat list \<Rightarrow> nat \<Rightarrow> fval" where
  "bin_mean a w msk wb b =
     fdiv_real (sum_list (select_bin (map2 (*) a w) msk wb b))
               (sum_list (select_bin w msk wb b))"

text \<open>Lines 109-116: the optional pass through \<open>np.interp\<close>.\<close>

definition interp_pass :: "kwargs \<Rightarrow> real list \<Rightarrow> fval list \<Rightarrow> error + fval list" where
  "interp_pass kw bin_centers prof =
     (if interpnan kw then interp bin_centers bin_centers prof (left kw) (right kw)
      else Inr prof)"

text \<open>Lines 118-127 and 266-275: the shape of the result.\<close>

definition emit :: "bool \<Rightarrow> bool \<Rightarrow> bool \<Rightarrow> real list \<Rightarrow> real list \<Rightarrow> nat list \<Rightarrow> fval list
    \<Rightarrow> result" where
  "emit stp cen cnt bins bin_centers nr prof =
     (if stp then StepArrays (zip_ravel (butlast bins) (tl bins)) (zip_ravel prof prof)
      else if cen then WithCenters bin_centers prof
      else if cnt then WithCounts nr bin_centers prof
      else Profile prof)"

subsection \<open>\<open>azimuthal_average\<close>\<close>

text \<open>Lines 39, 58-59 and 63-67: the bin size, the weights and the mask after their
  defaults.\<close>

definition az_binsize :: "kwargs \<Rightarrow> real" where
  "az_binsize kw = (case binsize kw of None \<Rightarrow> 1/2 | Some b \<Rightarrow> b)"

definition the_weights :: "image \<Rightarrow> kwargs \<Rightarrow> real list" where
  "the_weights im kw =
     (case weights kw of None \<Rightarrow> replicate (nrows im * ncols im) 1 | Some w \<Rightarrow> w)"

definition the_mask :: "image \<Rightarrow> kwargs \<Rightarrow> bool list" where
  "the_mask im kw =
     (case mask kw of None \<Rightarrow> replicate (nrows im * ncols im) True | Some m \<Rightarrow> m)"

text \<open>Line 56, line 88 and lines 89-107: the distances, the bin centres kept and the
  profile.\<close>

definition az_r :: "image \<Rightarrow> kwargs \<Rightarrow> real list" where
  "az_r im kw = distance_map im (the_center im (center kw))"

definition az_bin_centers :: "image \<Rightarrow> kwargs \<Rightarrow> real list" where
  "az_bin_centers im kw =
     take (nat (nbins_true im (az_binsize kw)))
          (centers_of (bin_edges (az_r im kw) (az_binsize kw)))"

definition az_prof :: "image \<Rightarrow> kwargs \<Rightarrow> fval list" where
  "az_prof im kw =
     (let bsz = az_binsize kw; r = az_r im kw; wb = whichbin_of r bsz;
          msk = the_mask im kw; w = the_weights im kw
      in if stddev kw then
           map (bin_std (flat im) msk wb) [1..<nat (nbins_of r bsz) + 1]
         else if sum_bin kw then
           map (bin_sum (flat im) w msk wb) [1..<nat (nbins_true im bsz) + 1]
         else
           map (bin_mean (flat im) w msk wb) [1..<nat (nbins_true im bsz) + 1])"

text \<open>The arrays meet inside the comprehensions (lines 91, 96, 103-104): a mask or weights
  of another size than the image is an error as soon as one bin is computed.\<close>

definition az_shapes_ok :: "image \<Rightarrow> kwargs \<Rightarrow> bool" where
  "az_shapes_ok im kw \<longleftrightarrow>
     (let n = nrows im * ncols im
      in if stddev kw then length (the_mask im kw) = n
         else nbins_true im (az_binsize kw) \<le> 0
              \<or> length (the_mask im kw) = n \<and> length (the_weights im kw) = n)"

definition azimuthal_average :: "image \<Rightarrow> kwargs \<Rightarrow> error + result" where
  "azimuthal_average im kw =
     (let n = nrows im * ncols im; bsz = az_binsize kw
      in if center kw = None \<and> n = 0 then Inl EmptyReduction
         else if weights kw \<noteq> None \<and> stddev kw then Inl WeightedStddev
         else if n = 0 then Inl EmptyReduction
         else if bsz \<le> 0 then Inl BadBinsize
         else if \<not> az_shapes_ok im kw then Inl ShapeMismatch
         else case interp_pass kw (az_bin_centers im kw) (az_prof im kw) of
                Inl e \<Rightarrow> Inl e
              | Inr prof \<Rightarrow>
                  Inr (emit (steps kw) (returnradii kw) (return_nr kw)
                         (bin_edges (az_r im kw) bsz) (az_bin_centers im kw)
                         (counts_of (az_r im kw) bsz) prof))"

subsection \<open>\<open>radial_average\<close>\<close>

text \<open>Line 199, lines 212-214, line 233 and lines 244-255: the bin size, the angles, the
  bin centres and the profile.\<close>

definition rad_binsize :: "kwargs \<Rightarrow> real" where
  "rad_binsize kw = (case binsize kw of None \<Rightarrow> 1 | Some b \<Rightarrow> b)"

definition rad_theta :: "image \<Rightarrow> kwargs \<Rightarrow> real list" where
  "rad_theta im kw = angle_map im (the_center im (center kw))"

definition rad_bin_centers :: "image \<Rightarrow> kwargs \<Rightarrow> real list" where
  "rad_bin_centers im kw = centers_of (bin_edges (rad_theta im kw) (rad_binsize kw))"

definition rad_prof :: "image \<Rightarrow> kwargs \<Rightarrow> fval list" where
  "rad_prof im kw =
     (let bsz = rad_binsize kw; th = rad_theta im kw; wb = whichbin_of th bsz;
          msk = the_mask im kw; w = the_weights im kw
      in if stddev kw then
           map (bin_std (flat im) msk wb) [1..<nat (nbins_of th bsz) + 1]
         else
           map (bin_mean (flat im) w msk wb) [1..<nat (nbins_of th bsz) + 1])"

definition rad_shapes_ok :: "image \<Rightarrow> kwargs \<Rightarrow> bool" where
  "rad_shapes_ok im kw \<longleftrightarrow>
     (let n = nrows im * ncols im
      in if stddev kw then length (the_mask im kw) = n
         else length (the_mask im kw) = n \<and> length (the_weights im kw) = n)"

text \<open>Line 229: \<open>nbins = np.round(theta_deg.max() / binsize) + 1\<close>. Unlike line 71, the
  value is not converted with \<open>int()\<close>: \<open>nbins\<close> is a NumPy float. \<open>np.linspace\<close> (line
  231; NumPy 1.18 and later) and \<open>range\<close> (lines 246 and 253) take their count through
  \<open>operator.index\<close>, which accepts an integer and raises TypeError on a float, an integral
  one too.\<close>

datatype pynum = PyInt int | PyFloat real

definition py_index :: "pynum \<Rightarrow> error + int" where
  "py_index v = (case v of PyInt k \<Rightarrow> Inr k | PyFloat x \<Rightarrow> Inl TypeError)"

definition rad_nbins :: "image \<Rightarrow> kwargs \<Rightarrow> pynum" where
  "rad_nbins im kw = PyFloat (of_int (nbins_of (rad_theta im kw) (rad_binsize kw)))"

text \<open>The function: the checks of lines 209-219, the count of lines 229-231, and the rest
  of the body, which only an integer count reaches.\<close>

definition radial_average :: "image \<Rightarrow> kwargs \<Rightarrow> error + result" where
  "radial_average im kw =
     (let n = nrows im * ncols im; bsz = rad_binsize kw
      in if center kw = None \<and> n = 0 then Inl EmptyReduction
         else if weights kw \<noteq> None \<and> stddev kw then Inl WeightedStddev
         else if n = 0 then Inl EmptyReduction
         else case py_index (rad_nbins im kw) of
                Inl e \<Rightarrow> Inl e
              | Inr nb \<Rightarrow>
                  if bsz \<le> 0 then Inl BadBinsize
                  else if \<not> rad_shapes_ok im kw then Inl ShapeMismatch
                  else case interp_pass kw (rad_bin_centers im kw) (rad_prof im kw) of
                         Inl e \<Rightarrow> Inl e
                       | Inr prof \<Rightarrow>
                           Inr (emit (steps kw) (return_az kw) (return_naz kw)
                                  (bin_edges (rad_theta im kw) bsz) (rad_bin_centers im kw)
                                  (counts_of (rad_theta im kw) bsz) prof))"

subsection \<open>\<open>azimuthal_average_bins\<close> and \<open>radial_average_bins\<close>\<close>

text \<open>The second argument: an array of boundaries, an integer, or anything else.\<close>

datatype bins_arg = BinArray "real list" | BinCount int | BinOther

text \<open>Line 156 and line 299: the mask of one sector, of one band.\<close>

definition sector_mask :: "real list \<Rightarrow> real \<Rightarrow> real \<Rightarrow> bool list" where
  "sector_mask theta_deg blow bhigh =
     map (\<lambda>t. py_mod blow 360 < t \<and> t < py_mod bhigh 360) theta_deg"

definition band_mask :: "real list \<Rightarrow> real \<Rightarrow> real \<Rightarrow> bool list" where
  "band_mask r blow bhigh = map (\<lambda>d. d < bhigh \<and> blow < d) r"

definition bin_pairs :: "real list \<Rightarrow> (real \<times> real) list" where
  "bin_pairs bs = zip (butlast bs) (tl bs)"

text \<open>The loop over the pairs of boundaries: \<open>rr, zz = call(mask)\<close> unpacks a pair, the
  last \<open>rr\<close> is kept, and an exception of the call leaves the loop.\<close>

fun bins_loop :: "(bool list \<Rightarrow> error + result) \<Rightarrow> bool list list \<Rightarrow> real list option
    \<Rightarrow> fval list list \<Rightarrow> error + real list option \<times> fval list list" where
  "bins_loop call [] rr acc = Inr (rr, acc)"
| "bins_loop call (m # ms) rr acc =
     (case call m of
        Inl e \<Rightarrow> Inl e
      | Inr (WithCenters a z) \<Rightarrow> bins_loop call ms (Some a) (acc @ [z])
      | Inr (StepArrays a z) \<Rightarrow> bins_loop call ms (Some a) (acc @ [z])
      | Inr _ \<Rightarrow> Inl UnpackError)"

definition bins_return :: "real list \<Rightarrow> error + real list option \<times> fval list list
    \<Rightarrow> error + real list \<times> real list \<times> fval list list" where
  "bins_return bs res =
     (case res of
        Inl e \<Rightarrow> Inl e
      | Inr (None, acc) \<Rightarrow> Inl UnboundLocal
      | Inr (Some rr, acc) \<Rightarrow> Inr (bs, rr, acc))"

text \<open>\<open>np.linspace(0, stop, k)\<close> with an integer \<open>k\<close>: a negative \<open>k\<close> is a ValueError.\<close>

definition linspace_int :: "real \<Rightarrow> int \<Rightarrow> error + real list" where
  "linspace_int stop k = (if k < 0 then Inl BadBins else Inr (linspace 0 stop (nat k)))"

text \<open>The call of line 157; \<open>mask\<close> or \<open>returnradii\<close> in \<open>kwargs\<close> would be given twice.\<close>

definition az_call :: "image \<Rightarrow> real \<times> real \<Rightarrow> kwargs \<Rightarrow> bool list \<Rightarrow> error + result" where
  "az_call im c kw m =
     (if mask kw = None \<and> \<not> returnradii kw then
        azimuthal_average im (kw\<lparr>center := Some c, mask := Some m, returnradii := True\<rparr>)
      else Inl DuplicateKeyword)"

definition az_sectors :: "image \<Rightarrow> real \<times> real \<Rightarrow> kwargs \<Rightarrow> real list \<Rightarrow> real list
    \<Rightarrow> error + real list \<times> real list \<times> fval list list" where
  "az_sectors im c kw theta_deg azbins =
     bins_return azbins
       (bins_loop (az_call im c kw)
          (map (\<lambda>(blow, bhigh). sector_mask theta_deg blow bhigh) (bin_pairs azbins)) None [])"

definition azimuthal_average_bins :: "image \<Rightarrow> bins_arg \<Rightarrow> int option \<Rightarrow> (real \<times> real) option
    \<Rightarrow> kwargs \<Rightarrow> error + real list \<times> real list \<times> fval list list" where
  "azimuthal_average_bins im azbins symmetric cen kw =
     (if cen = None \<and> nrows im * ncols im = 0 then Inl EmptyReduction
      else
        let c = the_center im cen; theta_deg = angle_map im c
        in case azbins of
             BinArray bs \<Rightarrow> az_sectors im c kw theta_deg bs
           | BinOther \<Rightarrow> Inl BadBins
           | BinCount k \<Rightarrow>
               if symmetric = Some 2 then
                 (case linspace_int 90 k of Inl e \<Rightarrow> Inl e
                  | Inr bs \<Rightarrow> az_sectors im c kw (map (\<lambda>t. py_mod t 90) theta_deg) bs)
               else if symmetric = Some 1 then
                 (case linspace_int 180 k of Inl e \<Rightarrow> Inl e
                  | Inr bs \<Rightarrow> az_sectors im c kw (map (\<lambda>t. py_mod t 180) theta_deg) bs)
               else
                 (case linspace_int 360 k of Inl e \<Rightarrow> Inl e
                  | Inr bs \<Rightarrow> az_sectors im c kw theta_deg bs))"

text \<open>The call of line 300.\<close>

definition rad_call :: "image \<Rightarrow> real \<times> real \<Rightarrow> kwargs \<Rightarrow> bool list \<Rightarrow> error + result" where
  "rad_call im c kw m =
     (if mask kw = None \<and> \<not> return_az kw then
        radial_average im (kw\<lparr>center := Some c, mask := Some m, return_az := True\<rparr>)
      else Inl DuplicateKeyword)"

definition rad_bands :: "image \<Rightarrow> real \<times> real \<Rightarrow> kwargs \<Rightarrow> real list \<Rightarrow> real list
    \<Rightarrow> error + real list \<times> real list \<times> fval list list" where
  "rad_bands im c kw r radbins =
     bins_return radbins
       (bins_loop (rad_call im c kw)
          (map (\<lambda>(blow, bhigh). band_mask r blow bhigh) (bin_pairs radbins)) None [])"

text \<open>Line 292: the largest absolute coordinate offset.\<close>

definition max_extent :: "image \<Rightarrow> real \<times> real \<Rightarrow> real" where
  "max_extent im c =
     amax (map (\<lambda>x. \<bar>x - fst c\<bar>) (indices_x im) @ map (\<lambda>y. \<bar>y - snd c\<bar>) (indices_y im))"

definition radial_average_bins :: "image \<Rightarrow> bins_arg \<Rightarrow> bool \<Rightarrow> (real \<times> real) option
    \<Rightarrow> kwargs \<Rightarrow> error + real list \<times> real list \<times> fval list list" where
  "radial_average_bins im radbins corners cen kw =
     (if cen = None \<and> nrows im * ncols im = 0 then Inl EmptyReduction
      else
        let c = the_center im cen; r = distance_map im c
        in case radbins of
             BinArray bs \<Rightarrow> rad_bands im c kw r bs
           | BinOther \<Rightarrow> Inl BadBins
           | BinCount k \<Rightarrow>
               if nrows im * ncols im = 0 then Inl EmptyReduction
               else
                 (case linspace_int (if corners then amax r else max_extent im c) k of
                    Inl e \<Rightarrow> Inl e
                  | Inr bs \<Rightarrow> rad_bands im c kw r bs))"

subsection \<open>Vocabulary of the properties, and an example image\<close>

text \<open>The shape of a result, the y-array of a result, the pixels of a bin, and a 1 x 5
  image whose centre is the pixel (2, 0): its distances are 2, 1, 0, 1, 2 and its angles
  270, 270, 0, 90, 90.\<close>

datatype shape = ProfileShape | CentersShape | CountsShape | StepsShape

fun shape_of :: "result \<Rightarrow> shape" where
  "shape_of (Profile p) = ProfileShape"
| "shape_of (WithCenters c p) = CentersShape"
| "shape_of (WithCounts n c p) = CountsShape"
| "shape_of (StepArrays x y) = StepsShape"

fun result_profile :: "result \<Rightarrow> fval list" where
  "result_profile (Profile p) = p"
| "result_profile (WithCenters c p) = p"
| "result_profile (WithCounts n c p) = p"
| "result_profile (StepArrays x y) = y"

definition img_1x5 :: image where
  "img_1x5 = \<lparr>nrows = 1, ncols = 5, flat = [10, 20, 30, 60, 50]\<rparr>"

text \<open>The pixels that contribute to bin \<open>b\<close>: those the mask lets pass and
  \<open>whichbin\<close> assigns to \<open>b\<close>, by their flat index.\<close>

definition bin_pixels :: "bool list \<Rightarrow> nat list \<Rightarrow> nat \<Rightarrow> nat list" where
  "bin_pixels msk wb b = select_bin [0..<length wb] msk wb b"

section \<open>Lemmas about the embedding\<close>

lemma set_indices_x:
  assumes "0 < nrows im" "0 < ncols im"
  shows "set (indices_x im) = real ` {0..<ncols im}"
proof -
  have "(\<lambda>i. i mod ncols im) ` {0..<nrows im * ncols im} = {0..<ncols im}"
  proof (intro equalityI subsetI)
    fix j assume "j \<in> (\<lambda>i. i mod ncols im) ` {0..<nrows im * ncols im}"
    then show "j \<in> {0..<ncols im}" using assms by auto
  next
    fix j assume j: "j \<in> {0..<ncols im}"
    then have "j < nrows im * ncols im"
      using assms by (metis atLeastLessThan_iff less_le_trans mult.commute mult_le_mono1 nat_mult_1_right Suc_leI One_nat_def)
    moreover have "j mod ncols im = j" using j by simp
    ultimately show "j \<in> (\<lambda>i. i mod ncols im) ` {0..<nrows im * ncols im}"
      by (metis atLeastLessThan_iff image_eqI zero_le)
  qed
  then have "real ` ((\<lambda>i. i mod ncols im) ` {0..<nrows im * ncols im}) = real ` {0..<ncols im}"
    by simp
  then show ?thesis by (simp add: indices_x_def image_image)
qed

lemma amax_indices_x:
  assumes "0 < nrows im" "0 < ncols im"
  shows "amax (indices_x im) = real (ncols im) - 1"
proof -
  have "ncols im - 1 \<in> {0..<ncols im}" using assms by simp
  then have "real (ncols im - 1) \<in> real ` {0..<ncols im}" by (rule imageI)
  moreover have "\<And>y. y \<in> real ` {0..<ncols im} \<Longrightarrow> y \<le> real (ncols im - 1)"
    by auto
  ultimately have "Max (real ` {0..<ncols im}) = real (ncols im - 1)"
    by (intro Max_eqI) auto
  then show ?thesis using assms by (simp add: amax_def set_indices_x of_nat_diff)
qed

lemma amin_indices_x:
  assumes "0 < nrows im" "0 < ncols im"
  shows "amin (indices_x im) = 0"
proof -
  have "Min (real ` {0..<ncols im}) = real 0"
    by (rule Min_eqI) (use assms in auto)
  then show ?thesis using assms by (simp add: amin_def set_indices_x)
qed

lemma sampling_freq_eq:
  "0 < nrows im \<Longrightarrow> 0 < ncols im \<Longrightarrow> sampling_freq im = (real (ncols im) - 1) / 2"
  by (simp add: sampling_freq_def amax_indices_x amin_indices_x)

lemma np_round_ge_floor: "\<lfloor>v\<rfloor> \<le> np_round v"
  by (simp add: np_round_def Let_def)

lemma np_round_gt: "v - 1/2 \<le> of_int (np_round v)"
  unfolding np_round_def Let_def by (auto; linarith)

lemma np_round_lt: "of_int (np_round v) \<le> v + 1/2"
  unfolding np_round_def Let_def by (auto; linarith)

lemma py_int_nonneg: "0 \<le> v \<Longrightarrow> py_int v = \<lfloor>v\<rfloor>"
  by (simp add: py_int_def)

lemma length_linspace: "length (linspace a b n) = n"
  by (simp add: linspace_def)

lemma length_bin_edges: "length (bin_edges vals bsz) = nat (nbins_of vals bsz + 1)"
  by (simp add: bin_edges_def length_linspace)

lemma length_centers_of: "length (centers_of bins) = length bins - 1"
  by (simp add: centers_of_def)

lemma hypot_ge_abs: "\<bar>a\<bar> \<le> hypot a b"
  unfolding hypot_def by (metis real_sqrt_sum_squares_ge1 real_sqrt_abs power2_abs abs_ge_zero)


lemma length_indices [simp]:
  "length (indices_x im) = nrows im * ncols im" "length (indices_y im) = nrows im * ncols im"
  by (simp_all add: indices_x_def indices_y_def)

lemma length_distance_map [simp]: "length (distance_map im c) = nrows im * ncols im"
  by (simp add: distance_map_def)

lemma distance_map_nth:
  "i < nrows im * ncols im \<Longrightarrow>
   distance_map im c ! i = hypot (real (i mod ncols im) - fst c) (real (i div ncols im) - snd c)"
  by (simp add: distance_map_def indices_x_def indices_y_def)

lemma amax_ge_nth: "i < length xs \<Longrightarrow> xs ! i \<le> amax xs"
  by (simp add: amax_def)


lemma amax_distance_ge:
  assumes "0 < nrows im" "0 < ncols im"
  shows "sampling_freq im \<le> amax (distance_map im c)"
proof -
  let ?n = "nrows im * ncols im" and ?r = "distance_map im c"
  have c1: "ncols im - 1 < ?n"
    using assms by (metis diff_less less_le_trans mult.commute mult_le_mono1 nat_mult_1_right Suc_leI One_nat_def zero_less_one)
  have c0: "0 < ?n" using assms by simp
  have r0: "?r ! 0 = hypot (0 - fst c) (0 - snd c)"
    using c0 assms by (simp add: distance_map_nth)
  have r1: "?r ! (ncols im - 1) = hypot (real (ncols im - 1) - fst c) (0 - snd c)"
    using c1 assms by (simp add: distance_map_nth)
  have "\<bar>0 - fst c\<bar> \<le> amax ?r"
    using amax_ge_nth[of 0 ?r] c0 r0 hypot_ge_abs[of "0 - fst c" "0 - snd c"] by simp
  moreover have "\<bar>real (ncols im - 1) - fst c\<bar> \<le> amax ?r"
    using amax_ge_nth[of "ncols im - 1" ?r] c1 r1
      hypot_ge_abs[of "real (ncols im - 1) - fst c" "0 - snd c"] by simp
  moreover have "real (ncols im - 1) = real (ncols im) - 1"
    using assms by (simp add: of_nat_diff)
  ultimately show ?thesis
    using assms by (simp add: sampling_freq_eq)
qed



lemma nbins_true_eq:
  assumes "0 < nrows im" "0 < ncols im" "0 < bsz"
  shows "nbins_true im bsz = \<lfloor>(real (ncols im) - 1) / 2 / bsz\<rfloor>"
proof -
  have "0 \<le> (real (ncols im) - 1) / 2 / bsz" using assms by simp
  then show ?thesis using assms by (simp add: nbins_true_def sampling_freq_eq py_int_nonneg)
qed

lemma nbins_true_nonneg:
  assumes "0 < nrows im" "0 < ncols im" "0 < bsz"
  shows "0 \<le> nbins_true im bsz"
  using assms by (simp add: nbins_true_eq)

lemma nbins_true_less:
  assumes "0 < nrows im" "0 < ncols im" "0 < bsz"
  shows "nbins_true im bsz < nbins_of (distance_map im c) bsz"
proof -
  have "sampling_freq im / bsz \<le> amax (distance_map im c) / bsz"
    using amax_distance_ge[OF assms(1,2)] assms(3) by (simp add: divide_right_mono)
  then have "\<lfloor>sampling_freq im / bsz\<rfloor> \<le> \<lfloor>amax (distance_map im c) / bsz\<rfloor>"
    by (rule floor_mono)
  moreover have "0 \<le> sampling_freq im / bsz"
    using assms by (simp add: sampling_freq_eq)
  ultimately show ?thesis
    using np_round_ge_floor[of "amax (distance_map im c) / bsz"]
    by (simp add: nbins_true_def nbins_of_def py_int_nonneg)
qed

lemma length_az_bin_centers:
  assumes "0 < nrows im" "0 < ncols im" "0 < az_binsize kw"
  shows "length (az_bin_centers im kw) = nat (nbins_true im (az_binsize kw))"
  using nbins_true_less[OF assms, of "the_center im (center kw)"] nbins_true_nonneg[OF assms]
  by (simp add: az_bin_centers_def length_centers_of length_bin_edges az_r_def)

lemma length_az_prof:
  "length (az_prof im kw) =
     (if stddev kw then nat (nbins_of (az_r im kw) (az_binsize kw))
      else nat (nbins_true im (az_binsize kw)))"
  by (simp add: az_prof_def Let_def)

lemma length_zip_ravel: "length (zip_ravel xs ys) = 2 * min (length xs) (length ys)"
  by (induction xs ys rule: zip_ravel.induct) auto

lemma filter_le_nth_sorted:
  assumes "sorted_wrt (<) xs" "i < length xs"
  shows "filter (\<lambda>e. e \<le> xs ! i) xs = take (Suc i) (xs :: real list)"
proof -
  have "filter (\<lambda>e. e \<le> xs ! i) (take (Suc i) xs) = take (Suc i) xs"
  proof (rule filter_True, clarify)
    fix e assume "e \<in> set (take (Suc i) xs)"
    then obtain k where k: "k < Suc i" "k < length xs" "e = xs ! k"
      by (auto simp: in_set_conv_nth)
    show "e \<le> xs ! i"
    proof (cases "k = i")
      case True then show ?thesis using k by simp
    next
      case False
      then have "k < i" using k by simp
      then show ?thesis using assms k sorted_wrt_nth_less[of "(<)" xs k i] by simp
    qed
  qed
  moreover have "filter (\<lambda>e. e \<le> xs ! i) (drop (Suc i) xs) = []"
  proof (rule filter_False, clarify)
    fix e assume "e \<in> set (drop (Suc i) xs)" "e \<le> xs ! i"
    then obtain k where k: "k < length xs - Suc i" "e = xs ! (Suc i + k)"
      by (auto simp: in_set_conv_nth)
    then have "xs ! i < xs ! (Suc i + k)"
      using assms sorted_wrt_nth_less[of "(<)" xs i "Suc i + k"] by simp
    then show False using k \<open>e \<le> xs ! i\<close> by simp
  qed
  ultimately show ?thesis
    by (metis append_Nil2 append_take_drop_id filter_append)
qed

lemma interp1_at_sample:
  assumes "sorted_wrt (<) xs" "i < length xs"
  shows "interp1 xs fp l r (xs ! i) = fp ! i"
proof -
  have j: "length (filter (\<lambda>e. e \<le> xs ! i) xs) = Suc i"
    using assms by (simp add: filter_le_nth_sorted)
  show ?thesis
  proof (cases "Suc i = length xs")
    case True
    then have "last xs = xs ! i" using assms by (metis diff_Suc_1 last_conv_nth length_0_conv nat.distinct(1))
    moreover have "xs \<noteq> []" using assms by auto
    moreover have "length xs - Suc 0 = i" using True by simp
    ultimately show ?thesis using True j by (simp add: interp1_def Let_def)
  next
    case False
    then show ?thesis using j by (simp add: interp1_def Let_def)
  qed
qed

lemma interp_self:
  assumes "sorted_wrt (<) xs" "xs \<noteq> []" "length fp = length xs"
  shows "interp xs xs fp l r = Inr fp"
proof -
  have "map (interp1 xs fp l r) xs = fp"
    using assms by (intro nth_equalityI) (simp_all add: interp1_at_sample)
  then show ?thesis using assms by (simp add: interp_def)
qed

lemma bin_edges_closed:
  assumes "1 \<le> nbins_of vals bsz"
  shows "bin_edges vals bsz = map (\<lambda>k. real k * bsz) [0..<Suc (nat (nbins_of vals bsz))]"
proof -
  let ?N = "nbins_of vals bsz"
  have n: "nat (?N + 1) = Suc (nat ?N)" "nat ?N \<noteq> 0"
    using assms by auto
  have "real_of_int ?N = real (nat ?N)" using assms by simp
  then have "(real_of_int ?N * bsz - 0) / real (Suc (nat ?N) - 1) = bsz"
    using n(2) by simp
  then have "linspace 0 (real_of_int ?N * bsz) (Suc (nat ?N))
             = map (\<lambda>k. real k * bsz) [0..<Suc (nat ?N)]"
    unfolding linspace_def using n(2) by (simp del: upt_Suc of_nat_nat)
  then show ?thesis
    unfolding bin_edges_def n(1) .
qed

lemma centers_of_closed:
  "centers_of (map (\<lambda>k. real k * bsz) [0..<Suc n]) = map (\<lambda>k. (real k + 1/2) * bsz) [0..<n]"
proof (rule nth_equalityI)
  show "length (centers_of (map (\<lambda>k. real k * bsz) [0..<Suc n])) = length (map (\<lambda>k. (real k + 1/2) * bsz) [0..<n])"
    by (simp add: length_centers_of)
next
  fix i assume "i < length (centers_of (map (\<lambda>k. real k * bsz) [0..<Suc n]))"
  then have i: "i < n" by (simp add: length_centers_of)
  have "centers_of (map (\<lambda>k. real k * bsz) [0..<Suc n]) ! i
        = (tl (map (\<lambda>k. real k * bsz) [0..<Suc n]) ! i + butlast (map (\<lambda>k. real k * bsz) [0..<Suc n]) ! i) / 2"
    using i unfolding centers_of_def by (subst nth_map) (simp_all del: upt_Suc)
  also have "\<dots> = (real (Suc i) * bsz + real i * bsz) / 2"
    using i by (simp add: nth_tl nth_butlast del: upt_Suc)
  also have "\<dots> = (real i + 1/2) * bsz" by (simp add: algebra_simps)
  finally show "centers_of (map (\<lambda>k. real k * bsz) [0..<Suc n]) ! i = map (\<lambda>k. (real k + 1/2) * bsz) [0..<n] ! i"
    using i by simp
qed

lemma sorted_centers:
  assumes "0 < bsz"
  shows "sorted_wrt (<) (map (\<lambda>k. (real k + 1/2) * bsz) [0..<n])"
  using assms by (simp add: sorted_wrt_map sorted_wrt_iff_nth_less)

lemma az_bin_centers_closed:
  assumes "0 < nrows im" "0 < ncols im" "0 < az_binsize kw"
  shows "az_bin_centers im kw
         = map (\<lambda>k. (real k + 1/2) * az_binsize kw) [0..<nat (nbins_true im (az_binsize kw))]"
proof -
  let ?b = "az_binsize kw" and ?r = "az_r im kw"
  have lt: "nbins_true im ?b < nbins_of ?r ?b"
    unfolding az_r_def by (rule nbins_true_less[OF assms])
  have ge: "0 \<le> nbins_true im ?b" by (rule nbins_true_nonneg[OF assms])
  have "1 \<le> nbins_of ?r ?b" using lt ge by simp
  then have "centers_of (bin_edges ?r ?b) = map (\<lambda>k. (real k + 1/2) * ?b) [0..<nat (nbins_of ?r ?b)]"
    by (simp only: bin_edges_closed centers_of_closed)
  moreover have "nat (nbins_true im ?b) \<le> nat (nbins_of ?r ?b)" using lt by simp
  ultimately show ?thesis
    by (simp add: az_bin_centers_def take_map min_def)
qed

lemma sorted_az_bin_centers:
  assumes "0 < nrows im" "0 < ncols im" "0 < az_binsize kw"
  shows "sorted_wrt (<) (az_bin_centers im kw)"
  by (simp only: az_bin_centers_closed[OF assms] sorted_centers[OF assms(3)])

lemma interp_pass_off: "\<not> interpnan kw \<Longrightarrow> interp_pass kw cs p = Inr p"
  by (simp add: interp_pass_def)

lemma interp_pass_sorted:
  assumes "sorted_wrt (<) cs" "cs \<noteq> [] \<or> \<not> interpnan kw" "length p = length cs"
  shows "interp_pass kw cs p = Inr p"
  using assms by (auto simp: interp_pass_def interp_self)

lemma interp_pass_mismatch:
  "interpnan kw \<Longrightarrow> length p \<noteq> length cs \<Longrightarrow> interp_pass kw cs p = Inl InterpError"
  by (simp add: interp_pass_def interp_def)

lemma azimuthal_average_valid:
  assumes "0 < nrows im" "0 < ncols im" "0 < az_binsize kw" "az_shapes_ok im kw"
    and "weights kw = None \<or> \<not> stddev kw"
  shows "azimuthal_average im kw =
    (case interp_pass kw (az_bin_centers im kw) (az_prof im kw) of
       Inl e \<Rightarrow> Inl e
     | Inr prof \<Rightarrow>
         Inr (emit (steps kw) (returnradii kw) (return_nr kw)
                (bin_edges (az_r im kw) (az_binsize kw)) (az_bin_centers im kw)
                (counts_of (az_r im kw) (az_binsize kw)) prof))"
  using assms by (auto simp: azimuthal_average_def Let_def)

text \<open>In the mean and sum modes the call returns unless an interpolation over no bin at
  all is requested, and then the profile is the raw profile.\<close>

lemma azimuthal_average_mean:
  assumes "0 < nrows im" "0 < ncols im" "0 < az_binsize kw" "az_shapes_ok im kw"
    and "\<not> stddev kw" and "0 < nbins_true im (az_binsize kw) \<or> \<not> interpnan kw"
  shows "azimuthal_average im kw =
         Inr (emit (steps kw) (returnradii kw) (return_nr kw)
                (bin_edges (az_r im kw) (az_binsize kw)) (az_bin_centers im kw)
                (counts_of (az_r im kw) (az_binsize kw)) (az_prof im kw))"
proof -
  have len: "length (az_prof im kw) = length (az_bin_centers im kw)"
    using assms by (simp add: length_az_prof length_az_bin_centers)
  have "az_bin_centers im kw \<noteq> [] \<or> \<not> interpnan kw"
    using assms(6) length_az_bin_centers[OF assms(1-3)] by auto
  then have "interp_pass kw (az_bin_centers im kw) (az_prof im kw) = Inr (az_prof im kw)"
    using sorted_az_bin_centers[OF assms(1-3)] len by (intro interp_pass_sorted)
  then show ?thesis
    using assms by (simp add: azimuthal_average_valid)
qed

lemma azimuthal_average_stddev:
  assumes "0 < nrows im" "0 < ncols im" "0 < az_binsize kw" "az_shapes_ok im kw"
    and "stddev kw" "weights kw = None"
  shows "azimuthal_average im kw =
         (if interpnan kw then Inl InterpError
          else Inr (emit (steps kw) (returnradii kw) (return_nr kw)
                (bin_edges (az_r im kw) (az_binsize kw)) (az_bin_centers im kw)
                (counts_of (az_r im kw) (az_binsize kw)) (az_prof im kw)))"
proof -
  have "nbins_true im (az_binsize kw) < nbins_of (az_r im kw) (az_binsize kw)"
    unfolding az_r_def by (rule nbins_true_less[OF assms(1-3)])
  then have "length (az_prof im kw) \<noteq> length (az_bin_centers im kw)"
    using assms nbins_true_nonneg[OF assms(1-3)]
    by (simp add: length_az_prof length_az_bin_centers)
  then show ?thesis
    using assms by (simp add: azimuthal_average_valid interp_pass_off interp_pass_mismatch)
qed

lemma arctan2_bounds: "- pi < arctan2 a b \<and> arctan2 a b \<le> pi"
proof -
  have b: "- (pi / 2) < arctan (a / b)" "arctan (a / b) < pi / 2"
    by (rule arctan_lbound, rule arctan_ubound)
  have pos: "0 \<le> a \<Longrightarrow> b < 0 \<Longrightarrow> arctan (a / b) \<le> 0"
    by (simp add: divide_nonneg_neg arctan_le_zero_iff)
  have neg: "a < 0 \<Longrightarrow> b < 0 \<Longrightarrow> 0 < arctan (a / b)"
    by (simp add: divide_neg_neg arctan_less_zero_iff zero_less_arctan_iff)
  show ?thesis
    using b pos neg pi_gt_zero unfolding arctan2_def by (auto; linarith)
qed

lemma wrap_deg_bounds:
  assumes "- pi < t" "t \<le> pi"
  shows "0 \<le> wrap_deg t" "wrap_deg t < 360"
proof -
  let ?u = "if t < 0 then t + 2 * pi else t"
  have u: "0 \<le> ?u" "?u < 2 * pi" using assms pi_gt_zero by (auto; linarith)+
  have "wrap_deg t = ?u * (180 / pi)" by (simp add: wrap_deg_def)
  moreover have "0 \<le> ?u * (180 / pi)" using u(1) pi_gt_zero by (intro mult_nonneg_nonneg) auto
  moreover have "?u * (180 / pi) < (2 * pi) * (180 / pi)"
    using u(2) pi_gt_zero by (intro mult_strict_right_mono) auto
  ultimately show "0 \<le> wrap_deg t" "wrap_deg t < 360" by simp_all
qed

lemma length_angle_map [simp]: "length (angle_map im c) = nrows im * ncols im"
  by (simp add: angle_map_def)

lemma angle_map_bounds: "t \<in> set (angle_map im c) \<Longrightarrow> 0 \<le> t \<and> t < 360"
  using wrap_deg_bounds arctan2_bounds by (auto simp: angle_map_def)

text \<open>Past its first checks \<open>radial_average\<close> stops at the float count.\<close>

lemma radial_average_type_error:
  assumes "0 < nrows im" "0 < ncols im" "weights kw = None \<or> \<not> stddev kw"
  shows "radial_average im kw = Inl TypeError"
  using assms by (auto simp: radial_average_def Let_def rad_nbins_def py_index_def)

lemma img_1x5_simps [simp]: "nrows img_1x5 = 1" "ncols img_1x5 = 5" "flat img_1x5 = [10, 20, 30, 60, 50]"
  by (simp_all add: img_1x5_def)

lemma no_kwargs_simps [simp]:
  "center no_kwargs = None" "stddev no_kwargs = False" "returnradii no_kwargs = False"
  "return_nr no_kwargs = False" "return_az no_kwargs = False" "return_naz no_kwargs = False"
  "binsize no_kwargs = None" "weights no_kwargs = None" "steps no_kwargs = False"
  "interpnan no_kwargs = False" "left no_kwargs = None" "right no_kwargs = None"
  "mask no_kwargs = None" "sum_bin no_kwargs = False"
  by (simp_all add: no_kwargs_def)

section \<open>The claims\<close>

subsection \<open>Lengths of the profile, the bin centres and the step arrays (C4, C1, C7)\<close>




text \<open>
  Claim C1 says that the profile has as many values as there are bin centres, in the
  \<open>stddev\<close> mode too. The code (line 91) builds the \<open>stddev\<close> profile over all \<open>nbins\<close>
  bins while the bin centres (line 88) are cut to \<open>nbins_true\<close>, which is always smaller:
  in the \<open>stddev\<close> mode the profile is strictly longer than the array of bin centres
  returned with it.
\<close>

theorem C1_stddev_profile_longer_than_centers:
  assumes "0 < nrows im" "0 < ncols im" "0 < az_binsize kw" "az_shapes_ok im kw"
    and "stddev kw" "weights kw = None" "\<not> interpnan kw" "\<not> steps kw" "returnradii kw"
  shows "\<exists>cs ps. azimuthal_average im kw = Inr (WithCenters cs ps) \<and> length cs < length ps"
proof -
  have "nbins_true im (az_binsize kw) < nbins_of (az_r im kw) (az_binsize kw)"
    unfolding az_r_def by (rule nbins_true_less[OF assms(1-3)])
  then have "length (az_bin_centers im kw) < length (az_prof im kw)"
    using assms nbins_true_nonneg[OF assms(1-3)]
    by (simp add: length_az_prof length_az_bin_centers)
  then show ?thesis
    using assms by (simp add: azimuthal_average_stddev emit_def)
qed

theorem C1_stddev_witness:
  "\<exists>cs ps. azimuthal_average img_1x5 (no_kwargs\<lparr>stddev := True, returnradii := True\<rparr>)
             = Inr (WithCenters cs ps) \<and> length cs < length ps"
  using C1_stddev_profile_longer_than_centers[of img_1x5 "no_kwargs\<lparr>stddev := True, returnradii := True\<rparr>"]
  by (simp add: az_binsize_def az_shapes_ok_def the_mask_def the_weights_def)

text \<open>
  Claim C7 says that the two arrays returned with \<open>steps=True\<close> have equal length. In
  the mean and sum modes of \<open>azimuthal_average\<close> the x-array is built from all the bin
  edges (\<open>2 * nbins\<close> samples, line 119) and the y-array from the truncated profile
  (\<open>2 * nbins_true\<close> samples, line 120): the y-array is strictly shorter.
\<close>

theorem C7_step_arrays_unequal:
  assumes "0 < nrows im" "0 < ncols im" "0 < az_binsize kw" "az_shapes_ok im kw"
    and "\<not> stddev kw" "steps kw" and "0 < nbins_true im (az_binsize kw) \<or> \<not> interpnan kw"
  shows "\<exists>xs ys. azimuthal_average im kw = Inr (StepArrays xs ys) \<and>
           length xs = 2 * nat (nbins_of (az_r im kw) (az_binsize kw)) \<and>
           length ys = 2 * nat (nbins_true im (az_binsize kw)) \<and>
           length ys < length xs"
proof -
  have lt: "nbins_true im (az_binsize kw) < nbins_of (az_r im kw) (az_binsize kw)"
    unfolding az_r_def by (rule nbins_true_less[OF assms(1-3)])
  have ge: "0 \<le> nbins_true im (az_binsize kw)" by (rule nbins_true_nonneg[OF assms(1-3)])
  show ?thesis
    using assms lt ge
    by (simp add: azimuthal_average_mean emit_def length_zip_ravel length_az_prof length_bin_edges)
       linarith
qed

theorem C7_step_arrays_witness:
  "\<exists>xs ys. azimuthal_average img_1x5 (no_kwargs\<lparr>steps := True\<rparr>) = Inr (StepArrays xs ys) \<and>
           length ys < length xs"
proof -
  have "\<exists>xs ys. azimuthal_average img_1x5 (no_kwargs\<lparr>steps := True\<rparr>) = Inr (StepArrays xs ys) \<and>
           length xs = 2 * nat (nbins_of (az_r img_1x5 (no_kwargs\<lparr>steps := True\<rparr>))
                                 (az_binsize (no_kwargs\<lparr>steps := True\<rparr>))) \<and>
           length ys = 2 * nat (nbins_true img_1x5 (az_binsize (no_kwargs\<lparr>steps := True\<rparr>))) \<and>
           length ys < length xs"
    by (rule C7_step_arrays_unequal)
       (simp_all add: az_binsize_def az_shapes_ok_def the_mask_def the_weights_def)
  then show ?thesis by blast
qed

subsection \<open>The shape of the result (C9)\<close>

lemma az_frame [simp]:
  "az_binsize (kw\<lparr>steps := s\<rparr>) = az_binsize kw"
  "az_binsize (kw\<lparr>returnradii := a\<rparr>) = az_binsize kw"
  "az_binsize (kw\<lparr>return_nr := b\<rparr>) = az_binsize kw"
  "az_r im (kw\<lparr>steps := s\<rparr>) = az_r im kw"
  "az_r im (kw\<lparr>returnradii := a\<rparr>) = az_r im kw"
  "az_r im (kw\<lparr>return_nr := b\<rparr>) = az_r im kw"
  "az_bin_centers im (kw\<lparr>steps := s\<rparr>) = az_bin_centers im kw"
  "az_bin_centers im (kw\<lparr>returnradii := a\<rparr>) = az_bin_centers im kw"
  "az_bin_centers im (kw\<lparr>return_nr := b\<rparr>) = az_bin_centers im kw"
  "az_prof im (kw\<lparr>steps := s\<rparr>) = az_prof im kw"
  "az_prof im (kw\<lparr>returnradii := a\<rparr>) = az_prof im kw"
  "az_prof im (kw\<lparr>return_nr := b\<rparr>) = az_prof im kw"
  "az_shapes_ok im (kw\<lparr>steps := s\<rparr>) = az_shapes_ok im kw"
  "az_shapes_ok im (kw\<lparr>returnradii := a\<rparr>) = az_shapes_ok im kw"
  "az_shapes_ok im (kw\<lparr>return_nr := b\<rparr>) = az_shapes_ok im kw"
  by (simp_all add: az_binsize_def az_r_def az_bin_centers_def az_prof_def az_shapes_ok_def
        the_mask_def the_weights_def Let_def)

lemma interp_pass_frame [simp]:
  "interp_pass (kw\<lparr>steps := s\<rparr>) = interp_pass kw"
  "interp_pass (kw\<lparr>returnradii := a\<rparr>) = interp_pass kw"
  "interp_pass (kw\<lparr>return_nr := b\<rparr>) = interp_pass kw"
  "interp_pass (kw\<lparr>return_az := a\<rparr>) = interp_pass kw"
  "interp_pass (kw\<lparr>return_naz := b\<rparr>) = interp_pass kw"
  by (simp_all add: interp_pass_def fun_eq_iff)

lemma shape_of_emit:
  "shape_of (emit s c n bins cs nr p) =
     (if s then StepsShape else if c then CentersShape else if n then CountsShape
      else ProfileShape)"
  by (simp add: emit_def)

lemma az_steps_wins:
  "azimuthal_average im (kw\<lparr>steps := True, returnradii := a, return_nr := b\<rparr>)
     = azimuthal_average im (kw\<lparr>steps := True, returnradii := False, return_nr := False\<rparr>)"
  by (simp add: azimuthal_average_def Let_def emit_def split: sum.split)

lemma az_radii_wins:
  "azimuthal_average im (kw\<lparr>steps := False, returnradii := True, return_nr := b\<rparr>)
     = azimuthal_average im (kw\<lparr>steps := False, returnradii := True, return_nr := False\<rparr>)"
  by (simp add: azimuthal_average_def Let_def emit_def split: sum.split)

lemma az_shape:
  "azimuthal_average im kw = Inr res \<Longrightarrow>
   shape_of res = (if steps kw then StepsShape else if returnradii kw then CentersShape
                   else if return_nr kw then CountsShape else ProfileShape)"
  by (auto simp: azimuthal_average_def Let_def shape_of_emit split: if_splits sum.splits)

text \<open>
  Claim C9 says that both functions return exactly one output shape, by the precedence
  \<open>steps\<close> over \<open>returnradii\<close> over \<open>return_nr\<close> (\<open>steps\<close> over \<open>return_az\<close> over
  \<open>return_naz\<close>). \<open>azimuthal_average\<close> does: the flags of lower precedence do not change its
  result, and a result has the shape of the first flag set. \<open>radial_average\<close> has the same
  chain (lines 266-275) and never reaches it: it raises TypeError at its float count.
\<close>

theorem C9_output_precedence:
  "azimuthal_average im (kw\<lparr>steps := True, returnradii := a, return_nr := b\<rparr>)
     = azimuthal_average im (kw\<lparr>steps := True, returnradii := False, return_nr := False\<rparr>)
   \<and> azimuthal_average im (kw\<lparr>steps := False, returnradii := True, return_nr := b\<rparr>)
     = azimuthal_average im (kw\<lparr>steps := False, returnradii := True, return_nr := False\<rparr>)
   \<and> (\<forall>res. azimuthal_average im kw = Inr res \<longrightarrow>
         shape_of res = (if steps kw then StepsShape else if returnradii kw then CentersShape
                         else if return_nr kw then CountsShape else ProfileShape))
   \<and> (0 < nrows im \<and> 0 < ncols im \<and> (weights kw = None \<or> \<not> stddev kw) \<longrightarrow>
         radial_average im kw = Inl TypeError)"
  using az_steps_wins az_radii_wins az_shape radial_average_type_error by blast

theorem C9_output_precedence_witness:
  "(\<exists>x y. azimuthal_average img_1x5
             (no_kwargs\<lparr>steps := True, returnradii := True, return_nr := True\<rparr>)
           = Inr (StepArrays x y))
   \<and> radial_average img_1x5 (no_kwargs\<lparr>steps := True, return_az := True, return_naz := True\<rparr>)
       = Inl TypeError"
proof -
  let ?ka = "no_kwargs\<lparr>steps := True, returnradii := True, return_nr := True\<rparr>"
  let ?kr = "no_kwargs\<lparr>steps := True, return_az := True, return_naz := True\<rparr>"
  have a: "\<exists>res. azimuthal_average img_1x5 ?ka = Inr res"
    by (subst azimuthal_average_mean)
       (simp_all add: az_binsize_def az_shapes_ok_def the_mask_def the_weights_def)
  from a obtain ra where ra: "azimuthal_average img_1x5 ?ka = Inr ra" by blast
  have "shape_of ra = StepsShape"
    using C9_output_precedence[where im=img_1x5 and kw="?ka"] ra by simp
  moreover have "radial_average img_1x5 ?kr = Inl TypeError"
    using C9_output_precedence[where im=img_1x5 and kw="?kr"] by simp
  ultimately show ?thesis
    using ra by (cases ra) simp_all
qed

subsection \<open>The guard on weights and stddev (C3)\<close>

lemma interp_pass_error: "interp_pass kw cs p = Inl e \<Longrightarrow> e = InterpError"
  by (auto simp: interp_pass_def interp_def split: if_splits)

lemma az_rejects_weighted_stddev:
  assumes "weights kw \<noteq> None" "stddev kw" "center kw \<noteq> None \<or> 0 < nrows im * ncols im"
  shows "azimuthal_average im kw = Inl WeightedStddev"
  using assms by (auto simp: azimuthal_average_def Let_def)

lemma rad_rejects_weighted_stddev:
  assumes "weights kw \<noteq> None" "stddev kw" "center kw \<noteq> None \<or> 0 < nrows im * ncols im"
  shows "radial_average im kw = Inl WeightedStddev"
  using assms by (auto simp: radial_average_def Let_def)

lemma az_default_weights_no_rejection:
  "weights kw = None \<Longrightarrow> azimuthal_average im kw \<noteq> Inl WeightedStddev"
  by (auto simp: azimuthal_average_def Let_def split: sum.splits dest: interp_pass_error)

lemma rad_default_weights_no_rejection:
  "weights kw = None \<Longrightarrow> radial_average im kw \<noteq> Inl WeightedStddev"
  by (auto simp: radial_average_def Let_def rad_nbins_def py_index_def)

lemma az_stddev_returns:
  assumes "weights kw = None" "stddev kw" "0 < nrows im" "0 < ncols im"
    "length (the_mask im kw) = nrows im * ncols im" "0 < az_binsize kw" "\<not> interpnan kw"
  shows "\<exists>res. azimuthal_average im kw = Inr res"
  using assms by (simp add: azimuthal_average_stddev az_shapes_ok_def)

text \<open>
  Claim C3 says that \<open>stddev=True\<close> with a \<open>weights\<close> array raises the ValueError
  "Weighted standard deviation is not defined." before any profile value is computed, and
  that with the default weights no error is raised. The first part holds for both
  functions (for an empty image without a centre the reduction \<open>x.max()\<close> of line 52 fails
  first), and with the default weights this error is never raised. Then
  \<open>azimuthal_average\<close> returns a result (for a mask of the image's size, a positive bin
  size and no \<open>interpnan\<close>, whose \<open>np.interp\<close> rejects the arrays of different lengths of
  claim C1), while \<open>radial_average\<close> raises TypeError at its float count.
\<close>

theorem C3_weighted_stddev_rejected:
  "(weights kw \<noteq> None \<and> stddev kw \<and> (center kw \<noteq> None \<or> 0 < nrows im * ncols im) \<longrightarrow>
      azimuthal_average im kw = Inl WeightedStddev \<and> radial_average im kw = Inl WeightedStddev)
   \<and> (weights kw = None \<longrightarrow>
      azimuthal_average im kw \<noteq> Inl WeightedStddev \<and> radial_average im kw \<noteq> Inl WeightedStddev)
   \<and> (weights kw = None \<and> stddev kw \<and> 0 < nrows im \<and> 0 < ncols im \<and>
      length (the_mask im kw) = nrows im * ncols im \<and> 0 < az_binsize kw \<and> \<not> interpnan kw \<longrightarrow>
      (\<exists>res. azimuthal_average im kw = Inr res))
   \<and> (weights kw = None \<and> 0 < nrows im \<and> 0 < ncols im \<longrightarrow>
      radial_average im kw = Inl TypeError)"
  using az_rejects_weighted_stddev rad_rejects_weighted_stddev az_default_weights_no_rejection
    rad_default_weights_no_rejection az_stddev_returns radial_average_type_error
  by (intro conjI impI) blast+

theorem C3_weighted_stddev_witness:
  "azimuthal_average img_1x5 (no_kwargs\<lparr>stddev := True, weights := Some [1, 1, 1, 1, 1]\<rparr>)
     = Inl WeightedStddev
   \<and> radial_average img_1x5 (no_kwargs\<lparr>stddev := True, weights := Some [1, 1, 1, 1, 1]\<rparr>)
     = Inl WeightedStddev
   \<and> (\<exists>res. azimuthal_average img_1x5 (no_kwargs\<lparr>stddev := True\<rparr>) = Inr res)
   \<and> radial_average img_1x5 (no_kwargs\<lparr>stddev := True\<rparr>) = Inl TypeError"
  using C3_weighted_stddev_rejected[where kw="no_kwargs\<lparr>stddev := True, weights := Some [1, 1, 1, 1, 1]\<rparr>" and im=img_1x5]
    C3_weighted_stddev_rejected[where kw="no_kwargs\<lparr>stddev := True\<rparr>" and im=img_1x5]
  by (simp add: az_binsize_def the_mask_def)

subsection \<open>The example image, evaluated\<close>

lemma hypot_zero: "hypot a 0 = \<bar>a\<bar>" by (simp add: hypot_def)

lemma indices_1x5:
  "indices_x img_1x5 = [0, 1, 2, 3, 4]" "indices_y img_1x5 = [0, 0, 0, 0, 0]"
  by (simp_all add: indices_x_def indices_y_def upt_conv_Cons)

lemma default_center_1x5: "default_center img_1x5 = (2, 0)"
  by (simp add: default_center_def indices_1x5 amax_def amin_def)

lemma distance_map_1x5: "distance_map img_1x5 (2, 0) = [2, 1, 0, 1, 2]"
  by (simp add: distance_map_def indices_1x5 hypot_zero)

lemma az_r_1x5:
  "center kw = None \<or> center kw = Some (2, 0) \<Longrightarrow> az_r img_1x5 kw = [2, 1, 0, 1, 2]"
  by (auto simp: az_r_def the_center_def default_center_1x5 distance_map_1x5)

lemma az_binsize_default: "binsize kw = None \<Longrightarrow> az_binsize kw = 1/2"
  by (simp add: az_binsize_def)

lemma nbins_1x5: "nbins_of [2, 1, 0, 1, 2] (1/2) = 5"
  by (simp add: nbins_of_def amax_def np_round_def)

lemma bin_edges_1x5: "bin_edges [2, 1, 0, 1, 2] (1/2) = [0, 1/2, 1, 3/2, 2, 5/2]"
  by (simp add: bin_edges_def nbins_1x5 linspace_def upt_conv_Cons)

lemma whichbin_1x5: "whichbin_of [2, 1, 0, 1, 2] (1/2) = [5, 3, 1, 3, 5]"
  by (simp add: whichbin_of_def bin_edges_1x5 digitize_def)


lemma nbins_true_1x5: "nbins_true img_1x5 (1/2) = 4"
  by (simp add: nbins_true_def sampling_freq_def indices_1x5 amax_def amin_def py_int_def)

lemma centers_1x5: "centers_of [0, 1/2, 1, 3/2, 2, 5/2] = [1/4, 3/4, 5/4, 7/4, 9/4 :: real]"
  by (simp add: centers_of_def)

lemma range_1_5: "[1..<5] = [1, 2, 3, Suc 3]"
  by (simp add: upt_conv_Cons)

lemma az_prof_mean_1x5:
  assumes "center kw = None \<or> center kw = Some (2, 0)" "binsize kw = None"
    "\<not> stddev kw" "\<not> sum_bin kw" "weights kw = None"
  shows "az_prof img_1x5 kw =
         map (bin_mean [10, 20, 30, 60, 50] [1, 1, 1, 1, 1] (the_mask img_1x5 kw) [5, 3, 1, 3, 5])
           [1, 2, 3, 4]"
  using assms
  by (simp add: az_prof_def Let_def az_r_1x5 az_binsize_default whichbin_1x5 nbins_true_1x5
        the_weights_def range_1_5 numeral_eq_Suc)

lemma replicate_5: "replicate 5 v = [v, v, v, v, v]"
  by (simp add: numeral_eq_Suc)

lemma the_mask_1x5: "mask kw = None \<Longrightarrow> the_mask img_1x5 kw = [True, True, True, True, True]"
  by (simp add: the_mask_def replicate_5)

lemma az_default_1x5:
  "azimuthal_average img_1x5 no_kwargs = Inr (Profile [Fin 30, NaN, Fin 40, NaN])"
proof -
  have "az_prof img_1x5 no_kwargs = [Fin 30, NaN, Fin 40, NaN]"
    by (simp add: az_prof_mean_1x5 the_mask_1x5 bin_mean_def select_bin_def fdiv_real_def)
  then show ?thesis
    by (subst azimuthal_average_mean)
       (simp_all add: az_binsize_def az_shapes_ok_def the_mask_def the_weights_def emit_def)
qed

subsection \<open>Interpolation over nan bins (C2)\<close>

lemma interpnan_frame [simp]:
  "az_binsize (kw\<lparr>interpnan := s\<rparr>) = az_binsize kw"
  "az_r im (kw\<lparr>interpnan := s\<rparr>) = az_r im kw"
  "az_bin_centers im (kw\<lparr>interpnan := s\<rparr>) = az_bin_centers im kw"
  "az_prof im (kw\<lparr>interpnan := s\<rparr>) = az_prof im kw"
  "az_shapes_ok im (kw\<lparr>interpnan := s\<rparr>) = az_shapes_ok im kw"
  by (simp_all add: az_binsize_def az_r_def az_bin_centers_def az_prof_def az_shapes_ok_def
        the_mask_def the_weights_def Let_def)

lemma az_interp_noop:
  assumes "0 < nrows im" "0 < ncols im" "0 < az_binsize kw" "az_shapes_ok im kw"
    "\<not> stddev kw" "0 < nbins_true im (az_binsize kw)"
  shows "azimuthal_average im (kw\<lparr>interpnan := True\<rparr>)
         = azimuthal_average im (kw\<lparr>interpnan := False\<rparr>)"
  using assms by (simp add: azimuthal_average_mean)

text \<open>
  Claim C2 says that \<open>interpnan=True\<close> replaces a \<open>nan\<close> bin by the linear interpolation
  of its neighbours. The code (lines 110-116) calls \<open>np.interp\<close> with the bin centres as
  the points to evaluate and the same bin centres, with the whole profile (\<open>nan\<close> values
  included), as the sample points: every point is a sample point and gets its own value
  back, whatever \<open>left\<close> and \<open>right\<close> are. With \<open>interpnan=True\<close> the result of
  \<open>azimuthal_average\<close> is the one of \<open>interpnan=False\<close>, and a \<open>nan\<close> bin stays \<open>nan\<close>.
  \<open>radial_average\<close> raises TypeError before it reaches its interpolation.
\<close>

theorem C2_interpnan_changes_nothing:
  "(0 < nrows im \<and> 0 < ncols im \<and> 0 < az_binsize kw \<and> az_shapes_ok im kw \<and> \<not> stddev kw \<and>
    0 < nbins_true im (az_binsize kw) \<longrightarrow>
      azimuthal_average im (kw\<lparr>interpnan := True\<rparr>)
      = azimuthal_average im (kw\<lparr>interpnan := False\<rparr>))
   \<and> (0 < nrows im \<and> 0 < ncols im \<and> (weights kw = None \<or> \<not> stddev kw) \<longrightarrow>
      radial_average im (kw\<lparr>interpnan := True\<rparr>) = Inl TypeError)"
proof -
  have "weights (kw\<lparr>interpnan := True\<rparr>) = weights kw"
    "stddev (kw\<lparr>interpnan := True\<rparr>) = stddev kw" by simp_all
  then show ?thesis
    using az_interp_noop[of im kw] radial_average_type_error[of im "kw\<lparr>interpnan := True\<rparr>"]
    by auto
qed

theorem C2_nan_bin_survives_interpnan:
  "azimuthal_average img_1x5 (no_kwargs\<lparr>interpnan := True\<rparr>)
   = Inr (Profile [Fin 30, NaN, Fin 40, NaN])"
proof -
  have e: "no_kwargs\<lparr>interpnan := False\<rparr> = no_kwargs" by (simp add: no_kwargs_def)
  have "azimuthal_average img_1x5 (no_kwargs\<lparr>interpnan := True\<rparr>)
      = azimuthal_average img_1x5 (no_kwargs\<lparr>interpnan := False\<rparr>)"
    using C2_interpnan_changes_nothing[where im=img_1x5 and kw=no_kwargs]
    by (simp add: az_binsize_default nbins_true_1x5 az_shapes_ok_def the_mask_def the_weights_def)
  then show ?thesis by (simp only: e az_default_1x5)
qed

subsection \<open>Empty bins (C8)\<close>

lemma zip_as_indexed:
  "length a = n \<Longrightarrow> zip a ys = map (\<lambda>(i, y). (a ! i, y)) (zip [0..<n] ys)"
  by (rule nth_equalityI) auto

lemma select_bin_pixels:
  assumes "length a = length wb"
  shows "select_bin a msk wb b = map ((!) a) (bin_pixels msk wb b)"
proof -
  have "filter (\<lambda>(v, m, w). m \<and> w = b) (map (\<lambda>(i, y). (a ! i, y)) (zip [0..<length wb] (zip msk wb)))
        = map (\<lambda>(i, y). (a ! i, y)) (filter (\<lambda>(v, m, w). m \<and> w = b) (zip [0..<length wb] (zip msk wb)))"
    by (simp add: filter_map comp_def case_prod_unfold)
  then show ?thesis
    unfolding select_bin_def bin_pixels_def zip_as_indexed[OF assms, of "zip msk wb"]
    by (simp add: comp_def case_prod_unfold)
qed

lemma length_whichbin_of [simp]: "length (whichbin_of vals bsz) = length vals"
  by (simp add: whichbin_of_def)

lemma bin_mean_pixels:
  assumes "length a = length wb" "length w = length wb"
  shows "bin_mean a w msk wb b =
         fdiv_real (\<Sum>i\<leftarrow>bin_pixels msk wb b. a ! i * w ! i) (\<Sum>i\<leftarrow>bin_pixels msk wb b. w ! i)"
proof -
  have l: "length (map2 (*) a w) = length wb" using assms by simp
  have "\<And>i. i \<in> set (bin_pixels msk wb b) \<Longrightarrow> i < length wb"
    by (auto simp: bin_pixels_def select_bin_def dest!: set_zip_leftD)
  then have m: "map ((!) (map2 (*) a w)) (bin_pixels msk wb b)
             = map (\<lambda>i. a ! i * w ! i) (bin_pixels msk wb b)"
    using assms by (intro map_cong) auto
  show ?thesis
    unfolding bin_mean_def select_bin_pixels[OF l] select_bin_pixels[OF assms(2)] m ..
qed

lemma bin_mean_empty:
  assumes "length a = length wb" "length w = length wb" "bin_pixels msk wb b = []"
  shows "bin_mean a w msk wb b = NaN"
  using assms by (simp add: bin_mean_pixels fdiv_real_def)





lemma az_prof_nth:
  assumes "\<not> stddev kw" "\<not> sum_bin kw" "1 \<le> j" "j \<le> nat (nbins_true im (az_binsize kw))"
  shows "az_prof im kw ! (j - 1) =
         bin_mean (flat im) (the_weights im kw) (the_mask im kw)
           (whichbin_of (az_r im kw) (az_binsize kw)) j"
  using assms by (simp add: az_prof_def Let_def del: upt_Suc)

lemma az_r_length [simp]: "length (az_r im kw) = nrows im * ncols im"
  by (simp add: az_r_def)

lemma az_empty_bin:
  assumes "0 < nrows im" "0 < ncols im" "wf_image im" "0 < az_binsize kw"
    and "length (the_mask im kw) = nrows im * ncols im"
    and "length (the_weights im kw) = nrows im * ncols im"
    and "\<not> stddev kw" "\<not> sum_bin kw"
    and "1 \<le> b" "b \<le> nat (nbins_true im (az_binsize kw))"
    and "bin_pixels (the_mask im kw) (whichbin_of (az_r im kw) (az_binsize kw)) b = []"
  shows "azimuthal_average im kw =
           Inr (emit (steps kw) (returnradii kw) (return_nr kw)
                  (bin_edges (az_r im kw) (az_binsize kw)) (az_bin_centers im kw)
                  (counts_of (az_r im kw) (az_binsize kw)) (az_prof im kw))
         \<and> length (az_prof im kw) = nat (nbins_true im (az_binsize kw))
         \<and> az_prof im kw ! (b - 1) = NaN
         \<and> (\<forall>j. 1 \<le> j \<and> j \<le> nat (nbins_true im (az_binsize kw)) \<longrightarrow>
              az_prof im kw ! (j - 1) =
                fdiv_real
                  (\<Sum>i\<leftarrow>bin_pixels (the_mask im kw) (whichbin_of (az_r im kw) (az_binsize kw)) j.
                       flat im ! i * the_weights im kw ! i)
                  (\<Sum>i\<leftarrow>bin_pixels (the_mask im kw) (whichbin_of (az_r im kw) (az_binsize kw)) j.
                       the_weights im kw ! i))"
proof -
  let ?wb = "whichbin_of (az_r im kw) (az_binsize kw)"
  have la: "length (flat im) = length ?wb" using assms(3) by (simp add: wf_image_def)
  have lw: "length (the_weights im kw) = length ?wb" using assms(6) by simp
  have ok: "az_shapes_ok im kw" using assms by (simp add: az_shapes_ok_def)
  have pos: "0 < nbins_true im (az_binsize kw)" using assms(9,10) by linarith
  have 1: "azimuthal_average im kw =
           Inr (emit (steps kw) (returnradii kw) (return_nr kw)
                  (bin_edges (az_r im kw) (az_binsize kw)) (az_bin_centers im kw)
                  (counts_of (az_r im kw) (az_binsize kw)) (az_prof im kw))"
    using assms(1,2,4,7) ok pos by (intro azimuthal_average_mean) auto
  have 2: "length (az_prof im kw) = nat (nbins_true im (az_binsize kw))"
    using assms(7) by (simp add: length_az_prof)
  have 3: "az_prof im kw ! (b - 1) = NaN"
    using az_prof_nth[OF assms(7,8,9,10)] bin_mean_empty[OF la lw assms(11)] by simp
  have 4: "\<And>j. 1 \<le> j \<and> j \<le> nat (nbins_true im (az_binsize kw)) \<Longrightarrow>
              az_prof im kw ! (j - 1) =
                fdiv_real (\<Sum>i\<leftarrow>bin_pixels (the_mask im kw) ?wb j. flat im ! i * the_weights im kw ! i)
                  (\<Sum>i\<leftarrow>bin_pixels (the_mask im kw) ?wb j. the_weights im kw ! i)"
    using az_prof_nth[OF assms(7,8)] bin_mean_pixels[OF la lw] by simp
  show ?thesis using 1 2 3 4 by blast
qed




lemma the_weights_1x5: "weights kw = None \<Longrightarrow> the_weights img_1x5 kw = [1, 1, 1, 1, 1]"
  by (simp add: the_weights_def replicate_5)

lemma wf_img_1x5: "wf_image img_1x5"
  by (simp add: wf_image_def)

lemma upt_5: "[0..<5] = [0, 1, 2, 3, 4]"
  by (simp add: upt_conv_Cons)

text \<open>
  Claim C8 says that in the weighted-mean mode a bin kept in the profile to which no
  pixel contributes yields \<open>nan\<close> at its position and no error, the other bins being
  unaffected. \<open>azimuthal_average\<close> does so: the call returns, the empty bin is \<open>nan\<close>, and
  the value of every bin is the weighted mean over that bin's own pixels only.
  \<open>radial_average\<close> raises TypeError at its float count, whatever the bins hold.
\<close>

theorem C8_empty_bin_is_nan:
  "(0 < nrows im \<and> 0 < ncols im \<and> wf_image im \<and> 0 < az_binsize kw \<and>
    length (the_mask im kw) = nrows im * ncols im \<and>
    length (the_weights im kw) = nrows im * ncols im \<and>
    \<not> stddev kw \<and> \<not> sum_bin kw \<and> 1 \<le> b \<and> b \<le> nat (nbins_true im (az_binsize kw)) \<and>
    bin_pixels (the_mask im kw) (whichbin_of (az_r im kw) (az_binsize kw)) b = []
    \<longrightarrow>
      azimuthal_average im kw =
           Inr (emit (steps kw) (returnradii kw) (return_nr kw)
                  (bin_edges (az_r im kw) (az_binsize kw)) (az_bin_centers im kw)
                  (counts_of (az_r im kw) (az_binsize kw)) (az_prof im kw))
      \<and> length (az_prof im kw) = nat (nbins_true im (az_binsize kw))
      \<and> az_prof im kw ! (b - 1) = NaN
      \<and> (\<forall>j. 1 \<le> j \<and> j \<le> nat (nbins_true im (az_binsize kw)) \<longrightarrow>
              az_prof im kw ! (j - 1) =
                fdiv_real
                  (\<Sum>i\<leftarrow>bin_pixels (the_mask im kw) (whichbin_of (az_r im kw) (az_binsize kw)) j.
                       flat im ! i * the_weights im kw ! i)
                  (\<Sum>i\<leftarrow>bin_pixels (the_mask im kw) (whichbin_of (az_r im kw) (az_binsize kw)) j.
                       the_weights im kw ! i)))
   \<and> (0 < nrows im \<and> 0 < ncols im \<and> \<not> stddev kw \<longrightarrow> radial_average im kw = Inl TypeError)"
proof (intro conjI impI)
  assume h: "0 < nrows im \<and> 0 < ncols im \<and> wf_image im \<and> 0 < az_binsize kw \<and>
    length (the_mask im kw) = nrows im * ncols im \<and>
    length (the_weights im kw) = nrows im * ncols im \<and>
    \<not> stddev kw \<and> \<not> sum_bin kw \<and> 1 \<le> b \<and> b \<le> nat (nbins_true im (az_binsize kw)) \<and>
    bin_pixels (the_mask im kw) (whichbin_of (az_r im kw) (az_binsize kw)) b = []"
  note r = az_empty_bin[of im kw b]
  show "azimuthal_average im kw =
           Inr (emit (steps kw) (returnradii kw) (return_nr kw)
                  (bin_edges (az_r im kw) (az_binsize kw)) (az_bin_centers im kw)
                  (counts_of (az_r im kw) (az_binsize kw)) (az_prof im kw))"
    using h r by blast
  show "length (az_prof im kw) = nat (nbins_true im (az_binsize kw))"
    using h r by blast
  show "az_prof im kw ! (b - 1) = NaN"
    using h r by blast
  show "\<forall>j. 1 \<le> j \<and> j \<le> nat (nbins_true im (az_binsize kw)) \<longrightarrow>
              az_prof im kw ! (j - 1) =
                fdiv_real
                  (\<Sum>i\<leftarrow>bin_pixels (the_mask im kw) (whichbin_of (az_r im kw) (az_binsize kw)) j.
                       flat im ! i * the_weights im kw ! i)
                  (\<Sum>i\<leftarrow>bin_pixels (the_mask im kw) (whichbin_of (az_r im kw) (az_binsize kw)) j.
                       the_weights im kw ! i)"
    using h r by blast
next
  assume "0 < nrows im \<and> 0 < ncols im \<and> \<not> stddev kw"
  then show "radial_average im kw = Inl TypeError"
    by (intro radial_average_type_error) auto
qed

theorem C8_empty_bin_witness:
  "az_prof img_1x5 no_kwargs ! 1 = NaN
   \<and> (\<exists>res. azimuthal_average img_1x5 no_kwargs = Inr res)
   \<and> radial_average img_1x5 no_kwargs = Inl TypeError"
proof -
  have m: "the_mask img_1x5 no_kwargs = [True, True, True, True, True]"
    by (simp add: the_mask_1x5)
  have w: "the_weights img_1x5 no_kwargs = [1, 1, 1, 1, 1]"
    by (simp add: the_weights_1x5)
  have r: "az_r img_1x5 no_kwargs = [2, 1, 0, 1, 2]" by (simp add: az_r_1x5)
  have ba: "az_binsize no_kwargs = 1/2" by (simp add: az_binsize_default)
  have pa: "bin_pixels [True, True, True, True, True] [5, 3, 1, 3, 5] 2 = []"
    by (simp add: bin_pixels_def select_bin_def upt_5)
  note c = C8_empty_bin_is_nan[where im=img_1x5 and kw=no_kwargs and b=2,
      unfolded m w r ba whichbin_1x5 nbins_true_1x5]
  show ?thesis
    using c pa by (simp add: wf_img_1x5)
qed

subsection \<open>The pixel counts (C5)\<close>










subsection \<open>Sectors from an integer (C6)\<close>

lemma bins_loop_ok:
  assumes "\<And>m. m \<in> set ms \<Longrightarrow>
             (\<exists>a z. call m = Inr (WithCenters a z)) \<or> (\<exists>a z. call m = Inr (StepArrays a z))"
  shows "\<exists>rr'. bins_loop call ms rr acc
                 = Inr (rr', acc @ map (\<lambda>m. result_profile (projr (call m))) ms)
               \<and> (ms \<noteq> [] \<longrightarrow> rr' \<noteq> None) \<and> (ms = [] \<longrightarrow> rr' = rr)"
  using assms
proof (induction ms arbitrary: rr acc)
  case Nil
  show ?case by simp
next
  case (Cons m ms)
  have rest: "\<And>r a. \<exists>rr'. bins_loop call ms r a
                 = Inr (rr', a @ map (\<lambda>m. result_profile (projr (call m))) ms)
               \<and> (ms \<noteq> [] \<longrightarrow> rr' \<noteq> None) \<and> (ms = [] \<longrightarrow> rr' = r)"
    using Cons.IH Cons.prems by simp
  from Cons.prems[of m] consider a z where "call m = Inr (WithCenters a z)"
    | a z where "call m = Inr (StepArrays a z)" by auto
  then show ?case
  proof cases
    case 1
    obtain rr' where "bins_loop call ms (Some a) (acc @ [z])
                 = Inr (rr', (acc @ [z]) @ map (\<lambda>m. result_profile (projr (call m))) ms)
               \<and> (ms \<noteq> [] \<longrightarrow> rr' \<noteq> None) \<and> (ms = [] \<longrightarrow> rr' = Some a)"
      using rest[of "Some a" "acc @ [z]"] by blast
    moreover have "bins_loop call (m # ms) rr acc = bins_loop call ms (Some a) (acc @ [z])"
      by (simp add: 1)
    moreover have "acc @ map (\<lambda>m. result_profile (projr (call m))) (m # ms)
                   = (acc @ [z]) @ map (\<lambda>m. result_profile (projr (call m))) ms"
      by (simp add: 1)
    ultimately show ?thesis by (cases "ms = []") (simp_all del: bins_loop.simps)
  next
    case 2
    obtain rr' where "bins_loop call ms (Some a) (acc @ [z])
                 = Inr (rr', (acc @ [z]) @ map (\<lambda>m. result_profile (projr (call m))) ms)
               \<and> (ms \<noteq> [] \<longrightarrow> rr' \<noteq> None) \<and> (ms = [] \<longrightarrow> rr' = Some a)"
      using rest[of "Some a" "acc @ [z]"] by blast
    moreover have "bins_loop call (m # ms) rr acc = bins_loop call ms (Some a) (acc @ [z])"
      by (simp add: 2)
    moreover have "acc @ map (\<lambda>m. result_profile (projr (call m))) (m # ms)
                   = (acc @ [z]) @ map (\<lambda>m. result_profile (projr (call m))) ms"
      by (simp add: 2)
    ultimately show ?thesis by (cases "ms = []") (simp_all del: bins_loop.simps)
  qed
qed


lemma length_bin_pairs: "length (bin_pairs bs) = length bs - 1"
  by (simp add: bin_pairs_def)

lemma bin_pairs_nth:
  "k + 1 < length bs \<Longrightarrow> bin_pairs bs ! k = (bs ! k, bs ! (k + 1))"
  by (simp add: bin_pairs_def nth_butlast nth_tl)

lemma center_mask_frame [simp]:
  "az_binsize (kw\<lparr>center := c\<rparr>) = az_binsize kw"
  "az_binsize (kw\<lparr>mask := m\<rparr>) = az_binsize kw"
  "the_weights im (kw\<lparr>center := c\<rparr>) = the_weights im kw"
  "the_weights im (kw\<lparr>mask := m\<rparr>) = the_weights im kw"
  "the_weights im (kw\<lparr>returnradii := a\<rparr>) = the_weights im kw"
  "the_mask im (kw\<lparr>center := c\<rparr>) = the_mask im kw"
  "the_mask im (kw\<lparr>mask := Some ms\<rparr>) = ms"
  "the_mask im (kw\<lparr>returnradii := a\<rparr>) = the_mask im kw"
  by (simp_all add: az_binsize_def the_weights_def the_mask_def)

lemma az_call_ok:
  assumes "0 < nrows im" "0 < ncols im" "0 < az_binsize kw"
    and "length (the_weights im kw) = nrows im * ncols im"
    and "weights kw = None \<or> \<not> stddev kw"
    and "\<not> interpnan kw \<or> (\<not> stddev kw \<and> 0 < nbins_true im (az_binsize kw))"
    and "mask kw = None" "\<not> returnradii kw"
    and "length m = nrows im * ncols im"
  shows "(\<exists>a z. az_call im c kw m = Inr (WithCenters a z))
         \<or> (\<exists>a z. az_call im c kw m = Inr (StepArrays a z))"
proof -
  define kw' where "kw' = kw\<lparr>center := Some c, mask := Some m, returnradii := True\<rparr>"
  have f: "az_binsize kw' = az_binsize kw" "stddev kw' = stddev kw" "weights kw' = weights kw"
    "interpnan kw' = interpnan kw" "returnradii kw'" "the_mask im kw' = m"
    "the_weights im kw' = the_weights im kw"
    by (simp_all add: kw'_def)
  have ok: "az_shapes_ok im kw'" using assms(4,9) by (simp add: az_shapes_ok_def f)
  have b: "0 < az_binsize kw'" using assms(3) by (simp add: f)
  have call: "az_call im c kw m = azimuthal_average im kw'"
    using assms(7,8) by (simp add: az_call_def kw'_def)
  have "azimuthal_average im kw' =
       Inr (emit (steps kw') (returnradii kw') (return_nr kw')
                (bin_edges (az_r im kw') (az_binsize kw')) (az_bin_centers im kw')
                (counts_of (az_r im kw') (az_binsize kw')) (az_prof im kw'))"
  proof (cases "stddev kw")
    case True
    then have "stddev kw'" "weights kw' = None" "\<not> interpnan kw'"
      using assms(5,6) by (simp_all add: f)
    then show ?thesis
      using azimuthal_average_stddev[OF assms(1,2) b ok] by simp
  next
    case False
    then have "\<not> stddev kw'" "0 < nbins_true im (az_binsize kw') \<or> \<not> interpnan kw'"
      using assms(6) by (auto simp: f)
    then show ?thesis
      by (rule azimuthal_average_mean[OF assms(1,2) b ok])
  qed
  then show ?thesis unfolding call by (simp add: emit_def f)
qed

lemma az_sectors_ok:
  assumes "0 < nrows im" "0 < ncols im" "0 < az_binsize kw"
    and "length (the_weights im kw) = nrows im * ncols im"
    and "weights kw = None \<or> \<not> stddev kw"
    and "\<not> interpnan kw \<or> (\<not> stddev kw \<and> 0 < nbins_true im (az_binsize kw))"
    and "mask kw = None" "\<not> returnradii kw"
    and "length theta = nrows im * ncols im" "2 \<le> length bs"
  shows "\<exists>rr. az_sectors im c kw theta bs
          = Inr (bs, rr, map (\<lambda>(blow, bhigh).
                    result_profile (projr (az_call im c kw (sector_mask theta blow bhigh))))
                  (bin_pairs bs))"
proof -
  let ?ms = "map (\<lambda>(blow, bhigh). sector_mask theta blow bhigh) (bin_pairs bs)"
  have "\<And>m. m \<in> set ?ms \<Longrightarrow>
          (\<exists>a z. az_call im c kw m = Inr (WithCenters a z))
          \<or> (\<exists>a z. az_call im c kw m = Inr (StepArrays a z))"
  proof -
    fix m assume "m \<in> set ?ms"
    then have "length m = nrows im * ncols im"
      using assms(9) by (auto simp: sector_mask_def)
    then show "(\<exists>a z. az_call im c kw m = Inr (WithCenters a z))
          \<or> (\<exists>a z. az_call im c kw m = Inr (StepArrays a z))"
      by (rule az_call_ok[OF assms(1-8)])
  qed
  from bins_loop_ok[of ?ms "az_call im c kw" None "[]", OF this]
  obtain rr' where r: "bins_loop (az_call im c kw) ?ms None []
                 = Inr (rr', [] @ map (\<lambda>m. result_profile (projr (az_call im c kw m))) ?ms)"
     "?ms \<noteq> [] \<longrightarrow> rr' \<noteq> None" by blast
  have "length ?ms \<noteq> 0" using assms(10) by (simp add: length_bin_pairs)
  then have "?ms \<noteq> []" by (simp only: length_0_conv not_False_eq_True)
  then obtain rr where "rr' = Some rr" using r(2) by auto
  then show ?thesis
    using r(1) by (simp add: az_sectors_def bins_return_def comp_def case_prod_unfold)
qed

lemma py_mod_id: "0 \<le> b \<Longrightarrow> b < m \<Longrightarrow> py_mod b m = b"
proof -
  assume a: "0 \<le> b" "b < m"
  then have "0 \<le> b / m" "b / m < 1" by simp_all
  then have "\<lfloor>b / m\<rfloor> = 0" by linarith
  then show ?thesis by (simp add: py_mod_def)
qed

lemma linspace_nth:
  "2 \<le> n \<Longrightarrow> k < n \<Longrightarrow> linspace 0 stop n ! k = real k * (stop / real (n - 1))"
  by (simp add: linspace_def)

lemma az_bins_count:
  assumes "0 < nrows im" "0 < ncols im" "0 < az_binsize kw"
    and "length (the_weights im kw) = nrows im * ncols im"
    and "weights kw = None \<or> \<not> stddev kw"
    and "\<not> interpnan kw \<or> (\<not> stddev kw \<and> 0 < nbins_true im (az_binsize kw))"
    and "mask kw = None" "\<not> returnradii kw"
    and "2 \<le> N"
  shows "\<exists>rr ps.
           azimuthal_average_bins im (BinCount N) None cen kw
             = Inr (linspace 0 360 (nat N), rr, ps)
           \<and> length ps = nat N - 1
           \<and> (\<forall>k. k < nat N \<longrightarrow> linspace 0 360 (nat N) ! k = real k * (360 / real (nat N - 1)))
           \<and> (\<forall>k. k + 2 < nat N \<longrightarrow>
                ps ! k = result_profile (projr (az_call im (the_center im cen) kw
                           (map (\<lambda>t. linspace 0 360 (nat N) ! k < t
                                      \<and> t < linspace 0 360 (nat N) ! (k + 1))
                                (angle_map im (the_center im cen))))))"
proof -
  let ?c = "the_center im cen"
  let ?th = "angle_map im ?c"
  let ?bs = "linspace 0 360 (nat N)"
  let ?ps = "map (\<lambda>(blow, bhigh).
                    result_profile (projr (az_call im ?c kw (sector_mask ?th blow bhigh))))
                  (bin_pairs ?bs)"
  have n2: "2 \<le> nat N" using assms(9) by simp
  have lb: "length ?bs = nat N" by (simp add: length_linspace)
  have lt: "length ?th = nrows im * ncols im" by simp
  have l2: "2 \<le> length ?bs" using n2 lb by simp
  obtain rr where rr: "az_sectors im ?c kw ?th ?bs = Inr (?bs, rr, ?ps)"
    using az_sectors_ok[OF assms(1-8) lt l2, of ?c] by blast
  have ne: "nrows im * ncols im \<noteq> 0" using assms(1,2) by simp
  have li: "linspace_int 360 N = Inr ?bs" using assms(9) by (simp add: linspace_int_def)
  have res: "azimuthal_average_bins im (BinCount N) None cen kw = Inr (?bs, rr, ?ps)"
    unfolding azimuthal_average_bins_def using ne rr by (simp add: Let_def li)
  have len: "length ?ps = nat N - 1" by (simp add: length_bin_pairs lb)
  have nth: "\<And>k. k < nat N \<Longrightarrow> ?bs ! k = real k * (360 / real (nat N - 1))"
    using n2 by (simp add: linspace_nth)
  have sect: "\<And>k. k + 2 < nat N \<Longrightarrow>
      ?ps ! k = result_profile (projr (az_call im ?c kw
                    (map (\<lambda>t. ?bs ! k < t \<and> t < ?bs ! (k + 1)) ?th)))"
  proof -
    fix k assume k: "k + 2 < nat N"
    have k1: "k + 1 < length ?bs" using k lb by simp
    have d: "0 < real (nat N - 1)" using n2 by simp
    have w: "0 < 360 / real (nat N - 1)" using d by simp
    have b0: "?bs ! k = real k * (360 / real (nat N - 1))" using k nth[of k] by simp
    have b1: "?bs ! (k + 1) = real (k + 1) * (360 / real (nat N - 1))"
      using k nth[of "k + 1"] by simp
    have "real (k + 1) < real (nat N - 1)" using k by (simp add: of_nat_diff)
    then have u1: "?bs ! (k + 1) < 360" unfolding b1 using d
      by (simp add: pos_less_divide_eq[symmetric] field_simps)
    have "real k < real (nat N - 1)" using k by (simp add: of_nat_diff)
    then have u0: "?bs ! k < 360" unfolding b0 using d
      by (simp add: pos_less_divide_eq[symmetric] field_simps)
    have g0: "0 \<le> ?bs ! k" unfolding b0 using w by simp
    have g1: "0 \<le> ?bs ! (k + 1)" unfolding b1 using w by simp
    have m: "sector_mask ?th (?bs ! k) (?bs ! (k + 1))
             = map (\<lambda>t. ?bs ! k < t \<and> t < ?bs ! (k + 1)) ?th"
      unfolding sector_mask_def py_mod_id[OF g0 u0] py_mod_id[OF g1 u1] ..
    have "k < length (bin_pairs ?bs)" using k1 by (simp add: length_bin_pairs)
    then have "?ps ! k = result_profile (projr (az_call im ?c kw
                    (sector_mask ?th (?bs ! k) (?bs ! (k + 1)))))"
      by (simp add: bin_pairs_nth[OF k1])
    then show "?ps ! k = result_profile (projr (az_call im ?c kw
                    (map (\<lambda>t. ?bs ! k < t \<and> t < ?bs ! (k + 1)) ?th)))"
      by (simp only: m)
  qed
  show ?thesis using res len nth sect by blast
qed

text \<open>
  Claim C6, amended. An integer \<open>N \<ge> 2\<close> given as \<open>azbins\<close> (with \<open>symmetric\<close> unset) is
  the number of boundary values, not of sectors: \<open>np.linspace(0, 360, N)\<close> gives \<open>N\<close>
  equally spaced boundaries from 0 to 360, both included, hence \<open>N - 1\<close> sectors of width
  \<open>360 / (N - 1)\<close>, and the function returns the boundaries and a list of \<open>N - 1\<close>
  profiles. The profile of each sector but the last is the radial profile over the pixels
  whose angle lies strictly between the sector's two boundaries. (The last sector, whose
  upper boundary 360 is reduced to 0 by \<open>bhigh % 360\<close>, is left out of the statement.)
\<close>

theorem C6_integer_gives_boundaries:
  assumes "0 < nrows im" "0 < ncols im" "0 < az_binsize kw"
    and "length (the_weights im kw) = nrows im * ncols im"
    and "weights kw = None \<or> \<not> stddev kw"
    and "\<not> interpnan kw \<or> (\<not> stddev kw \<and> 0 < nbins_true im (az_binsize kw))"
    and "mask kw = None" "\<not> returnradii kw"
    and "2 \<le> N"
  shows "\<exists>rr ps.
           azimuthal_average_bins im (BinCount N) None cen kw
             = Inr (linspace 0 360 (nat N), rr, ps)
           \<and> length ps = nat N - 1
           \<and> (\<forall>k. k < nat N \<longrightarrow> linspace 0 360 (nat N) ! k = real k * (360 / real (nat N - 1)))
           \<and> (\<forall>k. k + 2 < nat N \<longrightarrow>
                ps ! k = result_profile (projr (az_call im (the_center im cen) kw
                           (map (\<lambda>t. linspace 0 360 (nat N) ! k < t
                                      \<and> t < linspace 0 360 (nat N) ! (k + 1))
                                (angle_map im (the_center im cen))))))"
  using assms by (rule az_bins_count)

lemma linspace_360_examples:
  "linspace 0 360 3 = [0, 180, 360]" "linspace 0 360 4 = [0, 120, 240, 360]"
  by (simp_all add: linspace_def upt_conv_Cons)

theorem C6_integer_gives_boundaries_witness:
  "\<exists>rr ps. azimuthal_average_bins img_1x5 (BinCount 3) None None no_kwargs
             = Inr ([0, 180, 360], rr, ps) \<and> length ps = 2"
proof -
  have "\<exists>rr ps.
           azimuthal_average_bins img_1x5 (BinCount 3) None None no_kwargs
             = Inr (linspace 0 360 (nat 3), rr, ps)
           \<and> length ps = nat 3 - 1
           \<and> (\<forall>k. k < nat 3 \<longrightarrow> linspace 0 360 (nat 3) ! k = real k * (360 / real (nat 3 - 1)))
           \<and> (\<forall>k. k + 2 < nat 3 \<longrightarrow>
                ps ! k = result_profile (projr (az_call img_1x5 (the_center img_1x5 None) no_kwargs
                           (map (\<lambda>t. linspace 0 360 (nat 3) ! k < t
                                      \<and> t < linspace 0 360 (nat 3) ! (k + 1))
                                (angle_map img_1x5 (the_center img_1x5 None))))))"
    by (rule C6_integer_gives_boundaries)
       (simp_all add: az_binsize_default the_weights_1x5)
  then obtain rr ps where
    "azimuthal_average_bins img_1x5 (BinCount 3) None None no_kwargs
             = Inr (linspace 0 360 (nat 3), rr, ps)" "length ps = nat 3 - 1" by blast
  then show ?thesis by (simp add: linspace_360_examples)
qed

text \<open>
  Claim C6 as stated fails: \<open>azbins = 4\<close> gives the four boundaries 0, 120, 240, 360 and a
  list of three profiles, not four sectors of 90 degrees.
\<close>

theorem C6_four_boundaries_three_sectors:
  "\<exists>rr ps. azimuthal_average_bins img_1x5 (BinCount 4) None None no_kwargs
             = Inr ([0, 120, 240, 360], rr, ps) \<and> length ps = 3"
proof -
  have "\<exists>rr ps.
           azimuthal_average_bins img_1x5 (BinCount 4) None None no_kwargs
             = Inr (linspace 0 360 (nat 4), rr, ps)
           \<and> length ps = nat 4 - 1
           \<and> (\<forall>k. k < nat 4 \<longrightarrow> linspace 0 360 (nat 4) ! k = real k * (360 / real (nat 4 - 1)))
           \<and> (\<forall>k. k + 2 < nat 4 \<longrightarrow>
                ps ! k = result_profile (projr (az_call img_1x5 (the_center img_1x5 None) no_kwargs
                           (map (\<lambda>t. linspace 0 360 (nat 4) ! k < t
                                      \<and> t < linspace 0 360 (nat 4) ! (k + 1))
                                (angle_map img_1x5 (the_center img_1x5 None))))))"
    by (rule az_bins_count)
       (simp_all add: az_binsize_default the_weights_1x5)
  then obtain rr ps where
    "azimuthal_average_bins img_1x5 (BinCount 4) None None no_kwargs
             = Inr (linspace 0 360 (nat 4), rr, ps)" "length ps = nat 4 - 1" by blast
  then show ?thesis by (simp add: linspace_360_examples)
qed

subsection \<open>Pixels on a boundary (C10)\<close>





lemma flat_frame_indices [simp]:
  "indices_x (im\<lparr>flat := f\<rparr>) = indices_x im"
  "indices_y (im\<lparr>flat := f\<rparr>) = indices_y im"
  by (simp_all add: indices_x_def indices_y_def)

lemma flat_frame_maps [simp]:
  "default_center (im\<lparr>flat := f\<rparr>) = default_center im"
  "distance_map (im\<lparr>flat := f\<rparr>) p = distance_map im p"
  "angle_map (im\<lparr>flat := f\<rparr>) p = angle_map im p"
  "sampling_freq (im\<lparr>flat := f\<rparr>) = sampling_freq im"
  "the_mask (im\<lparr>flat := f\<rparr>) kw = the_mask im kw"
  "the_weights (im\<lparr>flat := f\<rparr>) kw = the_weights im kw"
  by (simp_all add: default_center_def distance_map_def angle_map_def sampling_freq_def
        the_mask_def the_weights_def split: option.split)

lemma flat_frame_center [simp]:
  "the_center (im\<lparr>flat := f\<rparr>) c = the_center im c"
  "nbins_true (im\<lparr>flat := f\<rparr>) bsz = nbins_true im bsz"
  by (simp_all add: the_center_def nbins_true_def split: option.split)

lemma flat_frame_az [simp]:
  "az_r (im\<lparr>flat := f\<rparr>) kw = az_r im kw"
  "az_shapes_ok (im\<lparr>flat := f\<rparr>) kw = az_shapes_ok im kw"
  by (simp_all add: az_r_def az_shapes_ok_def)

lemma flat_frame_centers [simp]:
  "az_bin_centers (im\<lparr>flat := f\<rparr>) kw = az_bin_centers im kw"
  by (simp add: az_bin_centers_def)

















end
